theory Spec2Isabelle
  imports Main "HOL-Library.Sublist"
begin

section \<open>Python strings and built-ins used by the SIWA module\<close>

text \<open>
  A Python \<open>str\<close> is modelled as a HOL \<open>string\<close>. One \<open>char\<close> stands for one code point,
  so the model covers the texts whose code points are below 256; \<open>length\<close> is Python's
  \<open>len\<close>. An exception is a value of \<open>py_exn\<close>; a computation that may raise returns
  \<open>py_exn + 'a\<close>, with \<open>Inl\<close> for the raised exception. Only exceptions below Python's
  \<open>Exception\<close> class are modelled (those an \<open>except Exception\<close> clause catches); the
  payload is the text \<open>str(e)\<close> gives.
\<close>

datatype py_exn =
    ValueError string
  | IndexError string
  | KeyError string
  | OtherError string

fun py_exn_str :: "py_exn \<Rightarrow> string" where
  "py_exn_str (ValueError m) = m"
| "py_exn_str (IndexError m) = m"
| "py_exn_str (KeyError m) = m"
| "py_exn_str (OtherError m) = m"

definition newline :: char where
  "newline = CHR 0x0A"

text \<open>\<open>str.isspace\<close> on one code point below 256.\<close>

definition py_isspace :: "char \<Rightarrow> bool" where
  "py_isspace c = ((of_char c :: nat) \<in> {9, 10, 11, 12, 13, 28, 29, 30, 31, 32, 133, 160})"

text \<open>\<open>s.strip()\<close>, with the set of stripped characters as a parameter.\<close>

definition strip_with :: "(char \<Rightarrow> bool) \<Rightarrow> string \<Rightarrow> string" where
  "strip_with P s = rev (dropWhile P (rev (dropWhile P s)))"

definition py_strip :: "string \<Rightarrow> string" where
  "py_strip s = strip_with py_isspace s"

text \<open>\<open>s.lower()\<close>: the letters A-Z and the upper-case letters of Latin-1 move by 32.\<close>

definition py_lower_char :: "char \<Rightarrow> char" where
  "py_lower_char c =
     (let n = (of_char c :: nat)
      in if (65 \<le> n \<and> n \<le> 90) \<or> (192 \<le> n \<and> n \<le> 222 \<and> n \<noteq> 215)
         then char_of (n + 32) else c)"

definition py_lower :: "string \<Rightarrow> string" where
  "py_lower s = map py_lower_char s"

text \<open>
  \<open>s.split(sep)\<close> for a separator of one character. The result is never empty:
  \<open>"".split(sep)\<close> is \<open>[""]\<close>.
\<close>

fun py_split :: "char \<Rightarrow> string \<Rightarrow> string list" where
  "py_split sep [] = [[]]"
| "py_split sep (c # cs) =
     (if c = sep then [] # py_split sep cs
      else (case py_split sep cs of
              [] \<Rightarrow> [[c]]
            | l # ls \<Rightarrow> (c # l) # ls))"

text \<open>\<open>sep.join(lines)\<close> for a separator of one character.\<close>

fun py_join :: "char \<Rightarrow> string list \<Rightarrow> string" where
  "py_join sep [] = []"
| "py_join sep [l] = l"
| "py_join sep (l # m # ls) = l @ sep # py_join sep (m # ls)"

text \<open>
  The first occurrence of \<open>sep\<close> in \<open>s\<close>: the text before it and the text after it.
  \<open>sep in s\<close>, \<open>s.partition(sep)\<close> and \<open>s.startswith(p)\<close> are read off it.
\<close>

fun py_find :: "string \<Rightarrow> string \<Rightarrow> (string \<times> string) option" where
  "py_find sep [] = (if sep = [] then Some ([], []) else None)"
| "py_find sep (c # cs) =
     (if prefix sep (c # cs) then Some ([], drop (length sep) (c # cs))
      else (case py_find sep cs of
              None \<Rightarrow> None
            | Some (before, after) \<Rightarrow> Some (c # before, after)))"

definition py_in :: "string \<Rightarrow> string \<Rightarrow> bool" where
  "py_in sep s = (py_find sep s \<noteq> None)"

definition py_partition :: "string \<Rightarrow> string \<Rightarrow> string \<times> string \<times> string" where
  "py_partition sep s =
     (case py_find sep s of
        None \<Rightarrow> (s, [], [])
      | Some (before, after) \<Rightarrow> (before, sep, after))"

definition startswith :: "string \<Rightarrow> string \<Rightarrow> bool" where
  "startswith s p = prefix p s"

text \<open>\<open>s.replace("Z", "+00:00")\<close>: every \<open>Z\<close> is replaced.\<close>

fun replace_Z :: "string \<Rightarrow> string" where
  "replace_Z [] = []"
| "replace_Z (c # cs) = (if c = CHR ''Z'' then ''+00:00'' @ replace_Z cs else c # replace_Z cs)"

subsection \<open>Integers as text\<close>

text \<open>
  \<open>str(n)\<close> of an \<open>int\<close>, as the f-strings of \<open>build_siwa_message\<close> format it: decimal
  digits, a minus sign for a negative number.
\<close>

definition digit_char :: "nat \<Rightarrow> char" where
  "digit_char d = char_of (48 + d)"

fun str_nat :: "nat \<Rightarrow> string" where
  "str_nat n = (if n < 10 then [digit_char n] else str_nat (n div 10) @ [digit_char (n mod 10)])"

declare str_nat.simps [simp del]

definition py_str_int :: "int \<Rightarrow> string" where
  "py_str_int i = (if i < 0 then CHR ''-'' # str_nat (nat (- i)) else str_nat (nat i))"

text \<open>
  \<open>int(s)\<close> of a \<open>str\<close>, base 10: white space around the literal is dropped (the six
  ASCII blanks, and the code points 0x85 and 0xA0), then an optional sign, then digits,
  where single underscores may stand between two digits. Anything else raises
  \<open>ValueError\<close>. The quoting that \<open>repr\<close> applies to the text of the message is not
  modelled.
\<close>

definition int_space :: "char \<Rightarrow> bool" where
  "int_space c = ((of_char c :: nat) \<in> {9, 10, 11, 12, 13, 32, 133, 160})"

definition is_digit :: "char \<Rightarrow> bool" where
  "is_digit c = (48 \<le> (of_char c :: nat) \<and> (of_char c :: nat) \<le> 57)"

definition digit_val :: "char \<Rightarrow> nat" where
  "digit_val c = of_char c - 48"

fun int_digits :: "nat \<Rightarrow> string \<Rightarrow> nat option" where
  "int_digits acc [] = Some acc"
| "int_digits acc (c # cs) =
     (if is_digit c then int_digits (acc * 10 + digit_val c) cs
      else if c = CHR ''_'' then
        (case cs of
           [] \<Rightarrow> None
         | d # ds \<Rightarrow> if is_digit d then int_digits (acc * 10 + digit_val d) ds else None)
      else None)"

definition int_unsigned :: "string \<Rightarrow> nat option" where
  "int_unsigned s =
     (case s of
        [] \<Rightarrow> None
      | c # cs \<Rightarrow> if is_digit c then int_digits (digit_val c) cs else None)"

definition int_literal :: "string \<Rightarrow> int option" where
  "int_literal s =
     (case strip_with int_space s of
        [] \<Rightarrow> None
      | c # cs \<Rightarrow>
          if c = CHR ''-'' then map_option (\<lambda>n. - int n) (int_unsigned cs)
          else if c = CHR ''+'' then map_option int (int_unsigned cs)
          else map_option int (int_unsigned (c # cs)))"

definition py_int :: "string \<Rightarrow> py_exn + int" where
  "py_int s =
     (case int_literal s of
        None \<Rightarrow> Inl (ValueError (''invalid literal for int() with base 10: '' @ [CHR 0x27] @ s @ [CHR 0x27]))
      | Some n \<Rightarrow> Inr n)"

subsection \<open>Dictionary access\<close>

text \<open>\<open>fields[key]\<close>: a missing key raises \<open>KeyError\<close>.\<close>

definition getitem :: "string \<Rightarrow> 'a option \<Rightarrow> py_exn + 'a" where
  "getitem key v =
     (case v of None \<Rightarrow> Inl (KeyError ([CHR 0x27] @ key @ [CHR 0x27])) | Some x \<Rightarrow> Inr x)"

text \<open>The truth test \<open>if fields.get(key)\<close> on a text: present and not empty.\<close>

definition truthy :: "string option \<Rightarrow> bool" where
  "truthy v = (case v of None \<Rightarrow> False | Some s \<Rightarrow> s \<noteq> [])"

text \<open>\<open>d.get(key, default)\<close>.\<close>

definition get_default :: "'a option \<Rightarrow> 'a \<Rightarrow> 'a" where
  "get_default v d = (case v of None \<Rightarrow> d | Some x \<Rightarrow> x)"

section \<open>Data model (siwa.py, lines 20-103)\<close>

datatype SIWAErrorCode =
    INVALID_SIGNATURE
  | DOMAIN_MISMATCH
  | INVALID_NONCE
  | MESSAGE_EXPIRED
  | MESSAGE_NOT_YET_VALID
  | INVALID_REGISTRY_FORMAT
  | NOT_REGISTERED
  | NOT_OWNER
  | AGENT_NOT_ACTIVE
  | MISSING_SERVICE
  | MISSING_TRUST_MODEL
  | LOW_REPUTATION
  | CUSTOM_CHECK_FAILED
  | VERIFICATION_FAILED

datatype SignerType = Eoa | Sca

datatype Verified = Offline | Onchain

datatype Status = Authenticated | Not_registered | Rejected

text \<open>
  The dictionaries are \<open>TypedDict\<close>s declared with \<open>total=False\<close>: any key may be missing.
  Each key is a field of option type; \<open>None\<close> stands for a missing key and for the Python
  value \<open>None\<close>, which \<open>dict.get\<close> and the truth tests of the module do not tell apart.
  Field names carry a prefix where two dictionaries share a key.
\<close>

record SIWAMessageFields =
  domain :: "string option"
  address :: "string option"
  statement :: "string option"
  uri :: "string option"
  version :: "string option"
  agent_id :: "int option"
  agent_registry :: "string option"
  chain_id :: "int option"
  nonce :: "string option"
  issued_at :: "string option"
  expiration_time :: "string option"
  not_before :: "string option"
  request_id :: "string option"

record SIWAVerificationResult =
  valid :: "bool option"
  r_address :: "string option"
  r_agent_id :: "int option"
  r_agent_registry :: "string option"
  r_chain_id :: "int option"
  verified :: "Verified option"
  signer_type :: "SignerType option"
  code :: "SIWAErrorCode option"
  error :: "string option"

record SIWASkillRef =
  skill_name :: string
  skill_install :: string
  skill_url :: string

record SIWAAction =
  action_type :: string
  action_message :: string
  action_skill :: SIWASkillRef
  steps :: "string list"
  registry_address :: "string option"
  action_chain_id :: "int option"

record SIWAResponse =
  status :: Status
  resp_address :: "string option"
  resp_agent_id :: "int option"
  resp_agent_registry :: "string option"
  resp_chain_id :: "int option"
  resp_verified :: "Verified option"
  resp_signer_type :: "SignerType option"
  resp_code :: "SIWAErrorCode option"
  resp_error :: "string option"
  resp_action :: "SIWAAction option"
  resp_skill :: "SIWASkillRef option"

section \<open>build_siwa_response (siwa.py, lines 106-167)\<close>

definition skill_ref :: SIWASkillRef where
  "skill_ref = \<lparr>skill_name = ''siwa'', skill_install = ''pip install siwa'',
     skill_url = ''https://siwa.id/skill.md''\<rparr>"

definition register_steps :: "string list" where
  "register_steps =
     [''Install the SDK: pip install siwa'',
      ''Create a wallet: from siwa import create_wallet; wallet = create_wallet()'',
      ''Fund the wallet with ETH on the target chain for gas fees'',
      ''Build ERC-8004 registration metadata (JSON with name, description, services, active: true)'',
      ''Register onchain: call register(agent_uri) on the Identity Registry contract'',
      ''Retry SIWA sign-in'']"

text \<open>The dictionary \<open>{"status": st, **base}\<close>.\<close>

definition base_response :: "Status \<Rightarrow> SIWAVerificationResult \<Rightarrow> SIWAResponse" where
  "base_response st result =
     \<lparr>status = st,
      resp_address = r_address result,
      resp_agent_id = r_agent_id result,
      resp_agent_registry = r_agent_registry result,
      resp_chain_id = r_chain_id result,
      resp_verified = verified result,
      resp_signer_type = signer_type result,
      resp_code = None, resp_error = None, resp_action = None, resp_skill = None\<rparr>"

text \<open>
  \<open>result.get("chain_id") or (int(registry_parts[1]) if len(registry_parts) >= 2 else None)\<close>:
  a chain id that is missing or 0 is false, and then the second part is read by \<open>int\<close>,
  which may raise.
\<close>

definition action_chain_id_of :: "SIWAVerificationResult \<Rightarrow> string list \<Rightarrow> py_exn + int option" where
  "action_chain_id_of result registry_parts =
     (case r_chain_id result of
        Some c \<Rightarrow>
          if c \<noteq> 0 then Inr (Some c)
          else if length registry_parts \<ge> 2
               then (case py_int (registry_parts ! 1) of Inl e \<Rightarrow> Inl e | Inr n \<Rightarrow> Inr (Some n))
               else Inr None
      | None \<Rightarrow>
          if length registry_parts \<ge> 2
          then (case py_int (registry_parts ! 1) of Inl e \<Rightarrow> Inl e | Inr n \<Rightarrow> Inr (Some n))
          else Inr None)"

definition build_siwa_response :: "SIWAVerificationResult \<Rightarrow> py_exn + SIWAResponse" where
  "build_siwa_response result =
     (if valid result = Some True then Inr (base_response Authenticated result)
      else if code result = Some NOT_REGISTERED then
        (let registry_parts =
               py_split (CHR '':'') (get_default (r_agent_registry result) []);
             registry_address' =
               (if length registry_parts = 3 then Some (registry_parts ! 2) else None)
         in case action_chain_id_of result registry_parts of
              Inl e \<Rightarrow> Inl e
            | Inr chain_id' \<Rightarrow>
                Inr ((base_response Not_registered result)
                  \<lparr>resp_code := code result,
                   resp_error := Some ''Agent is not registered on the ERC-8004 Identity Registry.'',
                   resp_skill := Some skill_ref,
                   resp_action := Some
                     \<lparr>action_type = ''register'',
                      action_message = ''This address is not registered as an ERC-8004 agent. Install the SIWA SDK and register before signing in.'',
                      action_skill = skill_ref,
                      steps = register_steps,
                      registry_address = registry_address',
                      action_chain_id = chain_id'\<rparr>\<rparr>))
      else
        Inr ((base_response Rejected result)
          \<lparr>resp_code := code result,
           resp_error := error result,
           resp_skill := Some skill_ref\<rparr>))"

section \<open>Message codec (siwa.py, lines 170-277)\<close>

text \<open>The line \<open>f"{label}: {value}"\<close> when the optional value is true, no line otherwise.\<close>

definition optional_line :: "string \<Rightarrow> string option \<Rightarrow> string list" where
  "optional_line label v =
     (case v of None \<Rightarrow> [] | Some s \<Rightarrow> if s \<noteq> [] then [label @ '': '' @ s] else [])"

definition domain_suffix :: string where
  "domain_suffix = '' wants you to sign in with your Agent account:''"

definition build_siwa_message :: "SIWAMessageFields \<Rightarrow> py_exn + string" where
  "build_siwa_message flds =
     (case getitem ''domain'' (domain flds) of Inl e \<Rightarrow> Inl e | Inr domain' \<Rightarrow>
      (case getitem ''address'' (address flds) of Inl e \<Rightarrow> Inl e | Inr address' \<Rightarrow>
      (case getitem ''uri'' (uri flds) of Inl e \<Rightarrow> Inl e | Inr uri' \<Rightarrow>
      (case getitem ''agent_id'' (agent_id flds) of Inl e \<Rightarrow> Inl e | Inr agent_id' \<Rightarrow>
      (case getitem ''agent_registry'' (agent_registry flds) of Inl e \<Rightarrow> Inl e | Inr agent_registry' \<Rightarrow>
      (case getitem ''chain_id'' (chain_id flds) of Inl e \<Rightarrow> Inl e | Inr chain_id' \<Rightarrow>
      (case getitem ''nonce'' (nonce flds) of Inl e \<Rightarrow> Inl e | Inr nonce' \<Rightarrow>
      (case getitem ''issued_at'' (issued_at flds) of Inl e \<Rightarrow> Inl e | Inr issued_at' \<Rightarrow>
        Inr (py_join newline
          ([domain' @ domain_suffix, address', []]
           @ (case statement flds of None \<Rightarrow> [] | Some s \<Rightarrow> if s \<noteq> [] then [s] else [])
           @ [[],
              ''URI: '' @ uri',
              ''Version: '' @ get_default (version flds) ''1'',
              ''Agent ID: '' @ py_str_int agent_id',
              ''Agent Registry: '' @ agent_registry',
              ''Chain ID: '' @ py_str_int chain_id',
              ''Nonce: '' @ nonce',
              ''Issued At: '' @ issued_at']
           @ optional_line ''Expiration Time'' (expiration_time flds)
           @ optional_line ''Not Before'' (not_before flds)
           @ optional_line ''Request ID'' (request_id flds)))))))))))"

text \<open>
  \<open>re.match(r"^(.+) wants you to sign in with your Agent account:$", line)\<close> on a line
  without a newline (\<open>lines[0]\<close> comes out of \<open>split("\n")\<close>): the line ends with the
  fixed text and at least one character stands before it; group 1 is what stands before.
\<close>

definition match_domain_line :: "string \<Rightarrow> string option" where
  "match_domain_line line =
     (if suffix domain_suffix line \<and> length domain_suffix < length line
      then Some (take (length line - length domain_suffix) line) else None)"

text \<open>The local variables of the loop over the lines from index 2 on.\<close>

record parse_locals =
  field_map :: "string \<rightharpoonup> string"
  statement_v :: "string option"
  in_statement :: bool
  stmt_lines :: "string list"

definition set_field :: "string \<Rightarrow> parse_locals \<Rightarrow> parse_locals" where
  "set_field line st =
     (case py_partition '': '' line of
        (key, _, val) \<Rightarrow> st\<lparr>field_map := (field_map st)(key \<mapsto> val)\<rparr>)"

definition parse_line :: "nat \<Rightarrow> string \<Rightarrow> parse_locals \<Rightarrow> parse_locals" where
  "parse_line i line st =
     (if i = 2 \<and> line = [] then st\<lparr>in_statement := True\<rparr>
      else if in_statement st then
        (if line = [] \<or> startswith line ''URI: '' then
           (let st' = st\<lparr>in_statement := False,
                          statement_v :=
                            (let s = py_strip (py_join newline (stmt_lines st))
                             in if s = [] then None else Some s)\<rparr>
            in if startswith line ''URI: '' then set_field line st' else st')
         else st\<lparr>stmt_lines := stmt_lines st @ [line]\<rparr>)
      else if py_in '': '' line then set_field line st
      else st)"

fun parse_loop :: "nat \<Rightarrow> string list \<Rightarrow> parse_locals \<Rightarrow> parse_locals" where
  "parse_loop i [] st = st"
| "parse_loop i (line # rest) st = parse_loop (Suc i) rest (parse_line i line st)"

definition parse_siwa_message :: "string \<Rightarrow> py_exn + SIWAMessageFields" where
  "parse_siwa_message message =
     (case py_split newline message of
        [] \<Rightarrow> Inl (IndexError ''list index out of range'')
      | line0 # rest \<Rightarrow>
          (case match_domain_line line0 of
             None \<Rightarrow> Inl (ValueError ''Invalid SIWA message: missing domain line'')
           | Some domain' \<Rightarrow>
               (case rest of
                  [] \<Rightarrow> Inl (IndexError ''list index out of range'')
                | address' # body \<Rightarrow>
                    if address' = [] \<or> \<not> startswith address' ''0x'' \<or> length address' \<noteq> 42
                    then Inl (ValueError ''Invalid SIWA message: missing or malformed address'')
                    else
                      (let st = parse_loop 2 body
                                  \<lparr>field_map = Map.empty, statement_v = None,
                                   in_statement = False, stmt_lines = []\<rparr>;
                           fm = field_map st
                       in (case py_int (get_default (fm ''Agent ID'') ''0'') of Inl e \<Rightarrow> Inl e | Inr agent_id' \<Rightarrow>
                          (case py_int (get_default (fm ''Chain ID'') ''0'') of Inl e \<Rightarrow> Inl e | Inr chain_id' \<Rightarrow>
                            Inr \<lparr>domain = Some domain',
                                 address = Some address',
                                 statement = statement_v st,
                                 uri = Some (get_default (fm ''URI'') []),
                                 version = Some (get_default (fm ''Version'') ''1''),
                                 agent_id = Some agent_id',
                                 agent_registry = Some (get_default (fm ''Agent Registry'') []),
                                 chain_id = Some chain_id',
                                 nonce = Some (get_default (fm ''Nonce'') []),
                                 issued_at = Some (get_default (fm ''Issued At'') []),
                                 expiration_time = fm ''Expiration Time'',
                                 not_before = fm ''Not Before'',
                                 request_id = fm ''Request ID''\<rparr>))))))"

section \<open>sign_siwa_message (siwa.py, lines 293-332)\<close>

text \<open>
  The signer is an external capability (a local key or a remote proxy). Its two calls act
  on a world \<open>'w\<close> that the model passes along, so that a call that was made shows in the
  world that comes back; each call returns or raises.
\<close>

record 'w Signer =
  get_address :: "'w \<Rightarrow> (py_exn + string) \<times> 'w"
  sign_message :: "string \<Rightarrow> 'w \<Rightarrow> (py_exn + string) \<times> 'w"

record SignedMessage =
  s_message :: string
  s_signature :: string
  s_address :: string

definition sign_siwa_message ::
  "SIWAMessageFields \<Rightarrow> 'w Signer \<Rightarrow> 'w \<Rightarrow> (py_exn + SignedMessage) \<times> 'w" where
  "sign_siwa_message flds signer w =
     (case get_address signer w of
        (Inl e, w1) \<Rightarrow> (Inl e, w1)
      | (Inr signer_address, w1) \<Rightarrow>
          (case (if truthy (address flds)
                 then (case address flds of
                         None \<Rightarrow> None
                       | Some a \<Rightarrow>
                           if py_lower signer_address \<noteq> py_lower a
                           then Some (ValueError (''Address mismatch: signer has '' @ signer_address
                                        @ '', message claims '' @ a))
                           else None)
                 else None) of
             Some e \<Rightarrow> (Inl e, w1)
           | None \<Rightarrow>
               (case build_siwa_message (flds\<lparr>address := Some signer_address\<rparr>) of
                  Inl e \<Rightarrow> (Inl e, w1)
                | Inr message \<Rightarrow>
                    (case sign_message signer message w1 of
                       (Inl e, w2) \<Rightarrow> (Inl e, w2)
                     | (Inr signature, w2) \<Rightarrow>
                         (Inr \<lparr>s_message = message, s_signature = signature,
                               s_address = signer_address\<rparr>, w2)))))"

section \<open>verify_siwa (siwa.py, lines 341-512)\<close>

text \<open>
  A \<open>datetime\<close> value: the reading of its calendar and clock fields, as a number of
  microseconds on the time line, and the offset from UTC of its \<open>tzinfo\<close>, when it has
  one. \<open>dt.replace(tzinfo=None)\<close> keeps the reading and drops the offset; the result and
  \<open>datetime.utcnow()\<close> are naive values, which compare by their readings. The instant a
  value denotes is its reading minus its offset.
\<close>

record py_datetime =
  wall_clock :: int
  tzinfo :: "int option"

definition replace_tzinfo_None :: "py_datetime \<Rightarrow> int" where
  "replace_tzinfo_None dt = wall_clock dt"

definition utc_instant :: "py_datetime \<Rightarrow> int" where
  "utc_instant dt = wall_clock dt - get_default (tzinfo dt) 0"

text \<open>
  What the function takes from outside the repository: the library functions of
  \<open>eth_account\<close>, \<open>datetime\<close> and \<open>web3\<close> (each returns or raises), the clock, the
  nonce validator and the node behind \<open>w3\<close>. The validator and the node act on the
  world \<open>'w\<close>.
\<close>

record 'h Library =
  encode_defunct :: "string \<Rightarrow> py_exn + 'h"
  recover_message :: "'h \<Rightarrow> string \<Rightarrow> py_exn + string"
  utcnow :: int
  fromisoformat :: "string \<Rightarrow> py_exn + py_datetime"
  to_checksum_address :: "string \<Rightarrow> py_exn + string"

text \<open>
  \<open>owner_of a n\<close> is \<open>w3.eth.contract(address=a, abi=owner_of_abi).functions.ownerOf(n).call()\<close>;
  \<open>get_code a\<close> is \<open>w3.eth.get_code(a)\<close>, the bytes of the deployed code.
\<close>

record 'w Web3 =
  owner_of :: "string \<Rightarrow> int \<Rightarrow> 'w \<Rightarrow> (py_exn + string) \<times> 'w"
  get_code :: "string \<Rightarrow> 'w \<Rightarrow> (py_exn + string) \<times> 'w"

type_synonym 'w NonceValidator = "string \<Rightarrow> 'w \<Rightarrow> (py_exn + bool) \<times> 'w"

definition fail :: "SIWAMessageFields \<Rightarrow> SIWAErrorCode \<Rightarrow> string \<Rightarrow> SIWAVerificationResult" where
  "fail flds code' error' =
     \<lparr>valid = Some False,
      r_address = Some (get_default (address flds) []),
      r_agent_id = Some (get_default (agent_id flds) 0),
      r_agent_registry = Some (get_default (agent_registry flds) []),
      r_chain_id = Some (get_default (chain_id flds) 0),
      verified = Some Onchain,
      signer_type = None,
      code = Some code',
      error = Some error'\<rparr>"

text \<open>
  Stage 7 and the detection of the signer type (lines 447-500). \<open>registry_address or
  registry_parts[2]\<close> takes the override when it is given and not empty.
\<close>

definition verify_onchain ::
  "'h Library \<Rightarrow> 'w Web3 \<Rightarrow> string option \<Rightarrow> SIWAMessageFields \<Rightarrow> string \<Rightarrow> 'w
     \<Rightarrow> (py_exn + SIWAVerificationResult) \<times> 'w" where
  "verify_onchain lib w3 registry_address' flds recovered w =
     (case getitem ''agent_registry'' (agent_registry flds) of Inl e \<Rightarrow> (Inl e, w) | Inr agent_registry' \<Rightarrow>
      let registry_parts = py_split (CHR '':'') agent_registry'
      in if length registry_parts \<noteq> 3 \<or> registry_parts ! 0 \<noteq> ''eip155''
         then (Inr (fail flds INVALID_REGISTRY_FORMAT ''Invalid agent_registry format''), w)
         else
           let reg_address = (if truthy registry_address' then get_default registry_address' []
                              else registry_parts ! 2)
           in (case (case to_checksum_address lib reg_address of
                      Inl e \<Rightarrow> (Inl e, w)
                    | Inr checksummed \<Rightarrow>
                        (case getitem ''agent_id'' (agent_id flds) of
                           Inl e \<Rightarrow> (Inl e, w)
                         | Inr agent_id' \<Rightarrow> owner_of w3 checksummed agent_id' w)) of
                (Inl e, w1) \<Rightarrow>
                  (Inr (fail flds NOT_REGISTERED
                          ''Agent is not registered on the ERC-8004 Identity Registry''), w1)
              | (Inr owner, w1) \<Rightarrow>
                  if py_lower owner \<noteq> py_lower recovered
                  then (Inr (fail flds NOT_OWNER ''Signer is not the owner of this agent NFT''), w1)
                  else
                    (case getitem ''address'' (address flds) of Inl e \<Rightarrow> (Inl e, w1) | Inr address' \<Rightarrow>
                     (case to_checksum_address lib address' of Inl e \<Rightarrow> (Inl e, w1) | Inr checksummed \<Rightarrow>
                     (case get_code w3 checksummed w1 of
                       (Inl e, w2) \<Rightarrow> (Inl e, w2)
                     | (Inr code', w2) \<Rightarrow>
                         (case getitem ''agent_id'' (agent_id flds) of Inl e \<Rightarrow> (Inl e, w2) | Inr agent_id' \<Rightarrow>
                          (case getitem ''chain_id'' (chain_id flds) of Inl e \<Rightarrow> (Inl e, w2) | Inr chain_id' \<Rightarrow>
                            (Inr \<lparr>valid = Some True,
                                  r_address = Some recovered,
                                  r_agent_id = Some agent_id',
                                  r_agent_registry = Some agent_registry',
                                  r_chain_id = Some chain_id',
                                  verified = Some Onchain,
                                  signer_type = Some (if code' \<noteq> [] then Sca else Eoa),
                                  code = None,
                                  error = None\<rparr>, w2))))))))"

text \<open>
  Stage 6, the time window (lines 429-445). Each test parses its field when the field is
  true and compares the clock with the reading of the parsed value.
\<close>

definition expired :: "'h Library \<Rightarrow> SIWAMessageFields \<Rightarrow> py_exn + bool" where
  "expired lib flds =
     (case expiration_time flds of
        None \<Rightarrow> Inr False
      | Some s \<Rightarrow>
          if s = [] then Inr False
          else (case fromisoformat lib (replace_Z s) of
                  Inl e \<Rightarrow> Inl e
                | Inr exp \<Rightarrow> Inr (utcnow lib > replace_tzinfo_None exp)))"

definition not_yet_valid :: "'h Library \<Rightarrow> SIWAMessageFields \<Rightarrow> py_exn + bool" where
  "not_yet_valid lib flds =
     (case not_before flds of
        None \<Rightarrow> Inr False
      | Some s \<Rightarrow>
          if s = [] then Inr False
          else (case fromisoformat lib (replace_Z s) of
                  Inl e \<Rightarrow> Inl e
                | Inr nbf \<Rightarrow> Inr (utcnow lib < replace_tzinfo_None nbf)))"

definition verify_time_window ::
  "'h Library \<Rightarrow> 'w Web3 \<Rightarrow> string option \<Rightarrow> SIWAMessageFields \<Rightarrow> string \<Rightarrow> 'w
     \<Rightarrow> (py_exn + SIWAVerificationResult) \<times> 'w" where
  "verify_time_window lib w3 registry_address' flds recovered w =
     (case expired lib flds of
        Inl e \<Rightarrow> (Inl e, w)
      | Inr True \<Rightarrow> (Inr (fail flds MESSAGE_EXPIRED ''Message expired''), w)
      | Inr False \<Rightarrow>
          (case not_yet_valid lib flds of
             Inl e \<Rightarrow> (Inl e, w)
           | Inr True \<Rightarrow>
               (Inr (fail flds MESSAGE_NOT_YET_VALID ''Message not yet valid (not_before)''), w)
           | Inr False \<Rightarrow> verify_onchain lib w3 registry_address' flds recovered w))"

text \<open>The body of the \<open>try\<close> block: stages 1 to 5 (lines 389-427), then the later stages.\<close>

definition verify_siwa_try ::
  "'h Library \<Rightarrow> string \<Rightarrow> string \<Rightarrow> string \<Rightarrow> 'w NonceValidator \<Rightarrow> 'w Web3
     \<Rightarrow> string option \<Rightarrow> 'w \<Rightarrow> (py_exn + SIWAVerificationResult) \<times> 'w" where
  "verify_siwa_try lib message signature expected_domain nonce_validator w3 registry_address' w =
     (case parse_siwa_message message of Inl e \<Rightarrow> (Inl e, w) | Inr flds \<Rightarrow>
      (case encode_defunct lib message of Inl e \<Rightarrow> (Inl e, w) | Inr message_hash \<Rightarrow>
      (case recover_message lib message_hash signature of
        Inl e \<Rightarrow> (Inr (fail flds INVALID_SIGNATURE ''Invalid signature''), w)
      | Inr recovered \<Rightarrow>
          (case getitem ''address'' (address flds) of Inl e \<Rightarrow> (Inl e, w) | Inr address' \<Rightarrow>
           if py_lower recovered \<noteq> py_lower address'
           then (Inr (fail flds INVALID_SIGNATURE
                        (''Signature recovered '' @ recovered @ '', expected '' @ address')), w)
           else
             (case getitem ''domain'' (domain flds) of Inl e \<Rightarrow> (Inl e, w) | Inr domain' \<Rightarrow>
              if domain' \<noteq> expected_domain
              then (Inr (fail flds DOMAIN_MISMATCH
                           (''Domain mismatch: expected '' @ expected_domain @ '', got '' @ domain')), w)
              else
                (case getitem ''nonce'' (nonce flds) of Inl e \<Rightarrow> (Inl e, w) | Inr nonce' \<Rightarrow>
                 (case nonce_validator nonce' w of
                   (Inl e, w1) \<Rightarrow> (Inl e, w1)
                 | (Inr nonce_ok, w1) \<Rightarrow>
                     if \<not> nonce_ok
                     then (Inr (fail flds INVALID_NONCE ''Invalid or consumed nonce''), w1)
                     else verify_time_window lib w3 registry_address' flds recovered w1)))))))"

text \<open>The \<open>try\<close> statement with its handler \<open>except Exception as e\<close> (lines 388, 502-512).\<close>

definition verify_siwa ::
  "'h Library \<Rightarrow> string \<Rightarrow> string \<Rightarrow> string \<Rightarrow> 'w NonceValidator \<Rightarrow> 'w Web3
     \<Rightarrow> string option \<Rightarrow> 'w \<Rightarrow> (py_exn + SIWAVerificationResult) \<times> 'w" where
  "verify_siwa lib message signature expected_domain nonce_validator w3 registry_address' w =
     (case verify_siwa_try lib message signature expected_domain nonce_validator w3
             registry_address' w of
        (Inr result, w') \<Rightarrow> (Inr result, w')
      | (Inl e, w') \<Rightarrow>
          (Inr \<lparr>valid = Some False,
                r_address = Some [],
                r_agent_id = Some 0,
                r_agent_registry = Some [],
                r_chain_id = Some 0,
                verified = Some Offline,
                signer_type = None,
                code = Some VERIFICATION_FAILED,
                error = Some (py_exn_str e)\<rparr>, w'))"

section \<open>Notions used in the statements\<close>

subsection \<open>The fields the codec round-trips\<close>

text \<open>
  A value is a single line when it holds no newline. The statement may span lines; what
  the parser cannot read back is a statement line that is empty or that begins with
  \<open>URI: \<close>, since either ends the statement block.
\<close>

definition single_line :: "string \<Rightarrow> bool" where
  "single_line s = (newline \<notin> set s)"

definition single_line_opt :: "string option \<Rightarrow> bool" where
  "single_line_opt v = (case v of None \<Rightarrow> True | Some s \<Rightarrow> single_line s)"

definition required_line :: "string option \<Rightarrow> bool" where
  "required_line v = (case v of None \<Rightarrow> False | Some s \<Rightarrow> single_line s)"

definition statement_ok :: "string option \<Rightarrow> bool" where
  "statement_ok v =
     (case v of
        None \<Rightarrow> True
      | Some s \<Rightarrow>
          s = [] \<or> list_all (\<lambda>l. l \<noteq> [] \<and> \<not> startswith l ''URI: '') (py_split newline s))"

definition codec_fields_ok :: "SIWAMessageFields \<Rightarrow> bool" where
  "codec_fields_ok f =
     ((case domain f of None \<Rightarrow> False | Some d \<Rightarrow> d \<noteq> [] \<and> single_line d)
      \<and> (case address f of
            None \<Rightarrow> False
          | Some a \<Rightarrow> startswith a ''0x'' \<and> length a = 42 \<and> single_line a)
      \<and> statement_ok (statement f)
      \<and> required_line (uri f)
      \<and> required_line (version f)
      \<and> agent_id f \<noteq> None
      \<and> required_line (agent_registry f)
      \<and> chain_id f \<noteq> None
      \<and> required_line (nonce f)
      \<and> required_line (issued_at f)
      \<and> single_line_opt (expiration_time f)
      \<and> single_line_opt (not_before f)
      \<and> single_line_opt (request_id f))"

text \<open>
  What parsing gives back: the statement stripped, and an empty statement or an empty
  optional field absent.
\<close>

definition absent_if_empty :: "string option \<Rightarrow> string option" where
  "absent_if_empty v = (if truthy v then v else None)"

definition normalized :: "SIWAMessageFields \<Rightarrow> SIWAMessageFields" where
  "normalized f =
     f\<lparr>statement := absent_if_empty (map_option py_strip (statement f)),
       expiration_time := absent_if_empty (expiration_time f),
       not_before := absent_if_empty (not_before f),
       request_id := absent_if_empty (request_id f)\<rparr>"

text \<open>The three groups of lines that \<open>build_siwa_message\<close> emits after the address.\<close>

definition statement_lines :: "string option \<Rightarrow> string list" where
  "statement_lines v = (case absent_if_empty v of None \<Rightarrow> [] | Some s \<Rightarrow> py_split newline s)"

definition field_lines ::
  "string \<Rightarrow> string \<Rightarrow> int \<Rightarrow> string \<Rightarrow> int \<Rightarrow> string \<Rightarrow> string \<Rightarrow> string list" where
  "field_lines u v i r c n t =
     [''URI: '' @ u, ''Version: '' @ v, ''Agent ID: '' @ py_str_int i, ''Agent Registry: '' @ r,
      ''Chain ID: '' @ py_str_int c, ''Nonce: '' @ n, ''Issued At: '' @ t]"

definition optional_lines :: "SIWAMessageFields \<Rightarrow> string list" where
  "optional_lines f =
     optional_line ''Expiration Time'' (expiration_time f)
     @ optional_line ''Not Before'' (not_before f)
     @ optional_line ''Request ID'' (request_id f)"

definition digit_step :: "nat \<Rightarrow> char \<Rightarrow> nat" where
  "digit_step a c = a * 10 + digit_val c"

subsection \<open>Concrete inputs\<close>

text \<open>
  A message of the shape the tests of the repository use, and stand-ins for what lies
  outside it. The world of the stand-ins is a pair of counters: the calls of the nonce
  validator and the calls that went to the chain. Times are microseconds after
  2030-01-01T00:00:00; the clock of \<open>demo_lib\<close> reads 08:00:00 UTC.
\<close>

definition demo_address :: string where
  "demo_address = ''0x1234567890123456789012345678901234567890''"

definition demo_fields :: SIWAMessageFields where
  "demo_fields =
     \<lparr>domain = Some ''example.com'',
      address = Some ''0x1234567890123456789012345678901234567890'',
      statement = None,
      uri = Some ''https://example.com/login'',
      version = Some ''1'',
      agent_id = Some 42,
      agent_registry = Some ''eip155:84532:0x8004AA63'',
      chain_id = Some 84532,
      nonce = Some ''abc123'',
      issued_at = Some ''2030-01-01T00:00:00Z'',
      expiration_time = Some ''2030-01-01T12:00:00Z'',
      not_before = None,
      request_id = None\<rparr>"

definition demo_message :: string where
  "demo_message = py_join newline
     [''example.com wants you to sign in with your Agent account:'',
      ''0x1234567890123456789012345678901234567890'',
      [],
      [],
      ''URI: https://example.com/login'',
      ''Version: 1'',
      ''Agent ID: 42'',
      ''Agent Registry: eip155:84532:0x8004AA63'',
      ''Chain ID: 84532'',
      ''Nonce: abc123'',
      ''Issued At: 2030-01-01T00:00:00Z'',
      ''Expiration Time: 2030-01-01T12:00:00Z'']"

text \<open>The same message with its expiration written in the zone UTC+05:00: 07:00:00 UTC.\<close>

definition offset_fields :: SIWAMessageFields where
  "offset_fields = demo_fields\<lparr>expiration_time := Some ''2030-01-01T12:00:00+05:00''\<rparr>"

definition offset_message :: string where
  "offset_message = py_join newline
     [''example.com wants you to sign in with your Agent account:'',
      ''0x1234567890123456789012345678901234567890'',
      [],
      [],
      ''URI: https://example.com/login'',
      ''Version: 1'',
      ''Agent ID: 42'',
      ''Agent Registry: eip155:84532:0x8004AA63'',
      ''Chain ID: 84532'',
      ''Nonce: abc123'',
      ''Issued At: 2030-01-01T00:00:00Z'',
      ''Expiration Time: 2030-01-01T12:00:00+05:00'']"

text \<open>A statement of two lines with blanks around it, and one that begins like a field.\<close>

definition statement_fields :: SIWAMessageFields where
  "statement_fields =
     demo_fields\<lparr>statement := Some ('' Sign in to'' @ [newline] @ ''your account ''),
                 request_id := Some []\<rparr>"

definition statement_message :: string where
  "statement_message = py_join newline
     [''example.com wants you to sign in with your Agent account:'',
      ''0x1234567890123456789012345678901234567890'',
      [],
      '' Sign in to'',
      ''your account '',
      [],
      ''URI: https://example.com/login'',
      ''Version: 1'',
      ''Agent ID: 42'',
      ''Agent Registry: eip155:84532:0x8004AA63'',
      ''Chain ID: 84532'',
      ''Nonce: abc123'',
      ''Issued At: 2030-01-01T00:00:00Z'',
      ''Expiration Time: 2030-01-01T12:00:00Z'']"

definition uri_statement_fields :: SIWAMessageFields where
  "uri_statement_fields = demo_fields\<lparr>statement := Some ''URI: x''\<rparr>"

definition uri_statement_message :: string where
  "uri_statement_message = py_join newline
     [''example.com wants you to sign in with your Agent account:'',
      ''0x1234567890123456789012345678901234567890'',
      [],
      ''URI: x'',
      [],
      ''URI: https://example.com/login'',
      ''Version: 1'',
      ''Agent ID: 42'',
      ''Agent Registry: eip155:84532:0x8004AA63'',
      ''Chain ID: 84532'',
      ''Nonce: abc123'',
      ''Issued At: 2030-01-01T00:00:00Z'',
      ''Expiration Time: 2030-01-01T12:00:00Z'']"

definition demo_fromisoformat :: "string \<Rightarrow> py_exn + py_datetime" where
  "demo_fromisoformat s =
     (if s = ''2030-01-01T12:00:00+00:00'' then Inr \<lparr>wall_clock = 43200000000, tzinfo = Some 0\<rparr>
      else if s = ''2030-01-01T12:00:00+05:00''
        then Inr \<lparr>wall_clock = 43200000000, tzinfo = Some 18000000000\<rparr>
      else Inl (ValueError (''Invalid isoformat string: '' @ [CHR 0x27] @ s @ [CHR 0x27])))"

definition demo_lib :: "string Library" where
  "demo_lib =
     \<lparr>encode_defunct = Inr,
      recover_message = (\<lambda>h sig. if sig = ''0xgood'' then Inr demo_address
                                  else Inl (OtherError ''bad signature'')),
      utcnow = 28800000000,
      fromisoformat = demo_fromisoformat,
      to_checksum_address = Inr\<rparr>"

definition demo_nonce_validator :: "(nat \<times> nat) NonceValidator" where
  "demo_nonce_validator n w = (Inr True, (Suc (fst w), snd w))"

text \<open>A validator that finds every nonce consumed.\<close>

definition rejecting_nonce_validator :: "(nat \<times> nat) NonceValidator" where
  "rejecting_nonce_validator n w = (Inr False, (Suc (fst w), snd w))"

definition demo_w3 :: "(nat \<times> nat) Web3" where
  "demo_w3 =
     \<lparr>owner_of = (\<lambda>a i w. (Inr demo_address, (fst w, Suc (snd w)))),
      get_code = (\<lambda>a w. (Inr [], (fst w, Suc (snd w))))\<rparr>"

definition failing_w3 :: "(nat \<times> nat) Web3" where
  "failing_w3 =
     \<lparr>owner_of = (\<lambda>a i w. (Inr demo_address, (fst w, Suc (snd w)))),
      get_code = (\<lambda>a w. (Inl (OtherError ''connection refused''), (fst w, Suc (snd w))))\<rparr>"

text \<open>A signer that holds \<open>demo_address\<close>; its world counts the signatures it made.\<close>

definition demo_signer :: "nat Signer" where
  "demo_signer =
     \<lparr>get_address = (\<lambda>w. (Inr demo_address, w)),
      sign_message = (\<lambda>m w. (Inr ''0xsigned'', Suc w))\<rparr>"

definition other_address :: string where
  "other_address = ''0xABCDEF1234567890ABCDEF1234567890ABCDEF12''"

text \<open>A verification result that \<open>verify_siwa\<close> gives for an unregistered agent.\<close>

definition unregistered_result :: SIWAVerificationResult where
  "unregistered_result =
     \<lparr>valid = Some False,
      r_address = Some ''0x1234567890123456789012345678901234567890'',
      r_agent_id = Some 42,
      r_agent_registry = Some ''eip155:abc:0x8004AA63'',
      r_chain_id = Some 0,
      verified = Some Onchain,
      signer_type = None,
      code = Some NOT_REGISTERED,
      error = Some ''Agent is not registered on the ERC-8004 Identity Registry''\<rparr>"

section \<open>Facts about the built-ins\<close>

subsection \<open>Splitting and joining\<close>

lemma py_split_not_Nil [simp]: "py_split sep s \<noteq> []"
  by (induction s) (auto split: list.splits)

lemma py_split_single: "sep \<notin> set s \<Longrightarrow> py_split sep s = [s]"
  by (induction s) auto

lemma py_split_append: "py_split sep (a @ sep # b) = py_split sep a @ py_split sep b"
proof (induction a)
  case Nil
  show ?case by simp
next
  case (Cons c a)
  obtain l ls where a: "py_split sep a = l # ls"
    by (cases "py_split sep a") auto
  with Cons show ?case by simp
qed

lemma py_split_join:
  "ls \<noteq> [] \<Longrightarrow> py_split sep (py_join sep ls) = concat (map (py_split sep) ls)"
  by (induction sep ls rule: py_join.induct) (simp_all add: py_split_append)

lemma py_join_Cons_Cons: "py_join sep ((c # l) # ls) = c # py_join sep (l # ls)"
  by (cases ls) simp_all

lemma py_join_split: "py_join sep (py_split sep s) = s"
proof (induction s)
  case Nil
  show ?case by simp
next
  case (Cons c s)
  obtain l ls where a: "py_split sep s = l # ls"
    by (cases "py_split sep s") auto
  with Cons show ?case by (simp add: py_join_Cons_Cons)
qed

lemma py_split_lines_no_sep: "l \<in> set (py_split sep s) \<Longrightarrow> sep \<notin> set l"
proof (induction s arbitrary: l)
  case Nil
  then show ?case by simp
next
  case (Cons c s)
  obtain k ks where a: "py_split sep s = k # ks"
    by (cases "py_split sep s") auto
  with Cons show ?case by (auto split: if_splits)
qed

subsection \<open>Stripping\<close>

lemma dropWhile_hd: "s \<noteq> [] \<Longrightarrow> \<not> P (hd s) \<Longrightarrow> dropWhile P s = s"
  by (cases s) simp_all

lemma strip_with_id: "s \<noteq> [] \<Longrightarrow> \<not> P (hd s) \<Longrightarrow> \<not> P (last s) \<Longrightarrow> strip_with P s = s"
  by (simp add: strip_with_def dropWhile_hd hd_rev)

subsection \<open>Integers and their text\<close>

lemma of_char_digit_char: "d < 10 \<Longrightarrow> (of_char (digit_char d) :: nat) = 48 + d"
  by (simp add: digit_char_def)

lemma is_digit_digit_char [simp]: "d < 10 \<Longrightarrow> is_digit (digit_char d)"
  by (simp add: is_digit_def of_char_digit_char)

lemma digit_val_digit_char [simp]: "d < 10 \<Longrightarrow> digit_val (digit_char d) = d"
  by (simp add: digit_val_def of_char_digit_char)

lemma is_digit_not_space: "is_digit c \<Longrightarrow> \<not> int_space c"
  by (auto simp: is_digit_def int_space_def)

lemma is_digit_not_sign: "is_digit c \<Longrightarrow> c \<noteq> CHR ''-'' \<and> c \<noteq> CHR ''+'' \<and> c \<noteq> CHR ''_''"
  by (auto simp: is_digit_def)

lemma str_nat_digits: "c \<in> set (str_nat n) \<Longrightarrow> is_digit c"
proof (induction n rule: str_nat.induct)
  case (1 n)
  then show ?case
    by (subst (asm) str_nat.simps) (auto split: if_splits)
qed

lemma str_nat_not_Nil [simp]: "str_nat n \<noteq> []"
  by (subst str_nat.simps) simp

lemma int_digits_all_digits:
  "\<forall>c\<in>set ds. is_digit c \<Longrightarrow> int_digits a ds = Some (foldl digit_step a ds)"
  by (induction ds arbitrary: a) (simp_all add: digit_step_def)

lemma digit_step_digit_char: "d < 10 \<Longrightarrow> digit_step a (digit_char d) = a * 10 + d"
  by (simp add: digit_step_def)

lemma foldl_str_nat: "foldl digit_step 0 (str_nat n) = n"
proof (induction n rule: str_nat.induct)
  case (1 n)
  show ?case
  proof (cases "n < 10")
    case True
    then show ?thesis by (subst str_nat.simps) (simp add: digit_step_digit_char)
  next
    case False
    with 1 have IH: "foldl digit_step 0 (str_nat (n div 10)) = n div 10" by simp
    show ?thesis using False by (subst str_nat.simps) (simp add: IH digit_step_digit_char)
  qed
qed

lemma int_unsigned_str_nat: "int_unsigned (str_nat n) = Some n"
proof -
  obtain c cs where s: "str_nat n = c # cs" by (cases "str_nat n") auto
  have d: "\<forall>x\<in>set (c # cs). is_digit x" using str_nat_digits[of _ n] s by auto
  have "int_unsigned (c # cs) = int_digits 0 (c # cs)"
    using d by (simp add: int_unsigned_def)
  also have "\<dots> = Some (foldl digit_step 0 (c # cs))"
    using d by (rule int_digits_all_digits)
  finally show ?thesis using s foldl_str_nat[of n] by simp
qed

lemma int_literal_str_int: "int_literal (py_str_int i) = Some i"
proof -
  obtain c cs where s: "str_nat (nat \<bar>i\<bar>) = c # cs" by (cases "str_nat (nat \<bar>i\<bar>)") auto
  have dig: "\<forall>x\<in>set (c # cs). is_digit x" using str_nat_digits[of _ "nat \<bar>i\<bar>"] s by auto
  have lastd: "is_digit (last (c # cs))" using dig last_in_set[of "c # cs"] by blast
  show ?thesis
  proof (cases "i < 0")
    case True
    then have abs: "nat \<bar>i\<bar> = nat (- i)" by simp
    have str: "py_str_int i = CHR ''-'' # c # cs" using True s abs by (simp add: py_str_int_def)
    have "strip_with int_space (CHR ''-'' # c # cs) = CHR ''-'' # c # cs"
      using lastd by (intro strip_with_id) (auto simp: int_space_def dest: is_digit_not_space)
    then show ?thesis
      using True str s abs int_unsigned_str_nat[of "nat (- i)"] by (simp add: int_literal_def)
  next
    case False
    then have abs: "nat \<bar>i\<bar> = nat i" by simp
    have str: "py_str_int i = c # cs" using False s abs by (simp add: py_str_int_def)
    have "strip_with int_space (c # cs) = c # cs"
      using lastd dig by (intro strip_with_id) (auto dest: is_digit_not_space)
    then show ?thesis
      using False str s abs dig is_digit_not_sign[of c] int_unsigned_str_nat[of "nat i"]
      by (simp add: int_literal_def)
  qed
qed

lemma py_int_str_int: "py_int (py_str_int i) = Inr i"
  by (simp add: py_int_def int_literal_str_int)

lemma str_nat_no_newline: "newline \<notin> set (str_nat n)"
  using str_nat_digits[of newline n] by (auto simp: is_digit_def newline_def)

lemma py_str_int_no_newline: "newline \<notin> set (py_str_int i)"
  using str_nat_no_newline by (auto simp: py_str_int_def newline_def)

subsection \<open>The first line\<close>

lemma match_domain_line_suffix:
  "d \<noteq> [] \<Longrightarrow> match_domain_line (d @ domain_suffix) = Some d"
  by (simp add: match_domain_line_def suffix_def)

subsection \<open>The loop over the lines\<close>

lemma parse_line_field:
  assumes "\<not> in_statement st" "py_find '': '' line = Some (k, v)"
  shows "parse_line i line st = st\<lparr>field_map := (field_map st)(k \<mapsto> v)\<rparr>"
proof -
  have "line \<noteq> []" using assms(2) by auto
  then show ?thesis
    using assms by (simp add: parse_line_def py_in_def set_field_def py_partition_def)
qed

lemma py_find_labels:
  "py_find '': '' (''URI: '' @ v) = Some (''URI'', v)"
  "py_find '': '' (''Version: '' @ v) = Some (''Version'', v)"
  "py_find '': '' (''Agent ID: '' @ v) = Some (''Agent ID'', v)"
  "py_find '': '' (''Agent Registry: '' @ v) = Some (''Agent Registry'', v)"
  "py_find '': '' (''Chain ID: '' @ v) = Some (''Chain ID'', v)"
  "py_find '': '' (''Nonce: '' @ v) = Some (''Nonce'', v)"
  "py_find '': '' (''Issued At: '' @ v) = Some (''Issued At'', v)"
  "py_find '': '' (''Expiration Time'' @ '': '' @ v) = Some (''Expiration Time'', v)"
  "py_find '': '' (''Not Before'' @ '': '' @ v) = Some (''Not Before'', v)"
  "py_find '': '' (''Request ID'' @ '': '' @ v) = Some (''Request ID'', v)"
  by simp_all

lemma parse_loop_append:
  "parse_loop i (xs @ ys) st = parse_loop (i + length xs) ys (parse_loop i xs st)"
  by (induction xs arbitrary: i st) simp_all

lemma parse_loop_statement:
  assumes "in_statement st" "2 < i"
    and "\<forall>l\<in>set ss. l \<noteq> [] \<and> \<not> startswith l ''URI: ''"
  shows "parse_loop i ss st = st\<lparr>stmt_lines := stmt_lines st @ ss\<rparr>"
  using assms
proof (induction ss arbitrary: i st)
  case Nil
  then show ?case by simp
next
  case (Cons l ss)
  have step: "parse_line i l st = st\<lparr>stmt_lines := stmt_lines st @ [l]\<rparr>"
    using Cons.prems by (simp add: parse_line_def)
  have "parse_loop (Suc i) ss (st\<lparr>stmt_lines := stmt_lines st @ [l]\<rparr>)
      = (st\<lparr>stmt_lines := stmt_lines st @ [l]\<rparr>)\<lparr>stmt_lines := stmt_lines (st\<lparr>stmt_lines := stmt_lines st @ [l]\<rparr>) @ ss\<rparr>"
    using Cons.prems by (intro Cons.IH) simp_all
  then show ?case using step by simp
qed

lemma concat_split_single:
  "\<forall>l\<in>set ls. sep \<notin> set l \<Longrightarrow> concat (map (py_split sep) ls) = ls"
  by (induction ls) (simp_all add: py_split_single)

lemma optional_line_single:
  "single_line_opt v \<Longrightarrow> newline \<notin> set label \<Longrightarrow> l \<in> set (optional_line label v) \<Longrightarrow> newline \<notin> set l"
  by (auto simp: optional_line_def single_line_opt_def single_line_def newline_def split: option.splits if_splits)

lemma parse_loop_optional_line:
  assumes "\<not> in_statement st" "\<And>s. py_find '': '' (label @ '': '' @ s) = Some (label, s)"
  shows "parse_loop i (optional_line label v) st
       = st\<lparr>field_map := (case absent_if_empty v of None \<Rightarrow> field_map st
                              | Some s \<Rightarrow> (field_map st)(label \<mapsto> s))\<rparr>"
  using assms
  by (auto simp: optional_line_def absent_if_empty_def truthy_def parse_line_field split: option.splits)

lemma parse_loop_field_lines:
  assumes "\<not> in_statement st"
  shows "parse_loop k (field_lines u v i r c n t) st
       = st\<lparr>field_map := (field_map st)(''URI'' \<mapsto> u, ''Version'' \<mapsto> v, ''Agent ID'' \<mapsto> py_str_int i,
            ''Agent Registry'' \<mapsto> r, ''Chain ID'' \<mapsto> py_str_int c, ''Nonce'' \<mapsto> n, ''Issued At'' \<mapsto> t)\<rparr>"
  using assms by (simp add: field_lines_def parse_line_field py_find_labels)

lemma field_lines_single:
  assumes "single_line u" "single_line v" "single_line r" "single_line n" "single_line t"
  shows "\<forall>l\<in>set (field_lines u v i r c n t). newline \<notin> set l"
  using assms py_str_int_no_newline[of i] py_str_int_no_newline[of c]
  by (simp add: field_lines_def single_line_def) (simp add: newline_def)

lemma parse_loop_optional_lines:
  assumes "\<not> in_statement st"
  shows "in_statement (parse_loop k (optional_lines f) st) = in_statement st
     \<and> statement_v (parse_loop k (optional_lines f) st) = statement_v st
     \<and> field_map (parse_loop k (optional_lines f) st) ''Expiration Time''
          = (case absent_if_empty (expiration_time f) of None \<Rightarrow> field_map st ''Expiration Time'' | Some s \<Rightarrow> Some s)
     \<and> field_map (parse_loop k (optional_lines f) st) ''Not Before''
          = (case absent_if_empty (not_before f) of None \<Rightarrow> field_map st ''Not Before'' | Some s \<Rightarrow> Some s)
     \<and> field_map (parse_loop k (optional_lines f) st) ''Request ID''
          = (case absent_if_empty (request_id f) of None \<Rightarrow> field_map st ''Request ID'' | Some s \<Rightarrow> Some s)
     \<and> (\<forall>key. key \<notin> {''Expiration Time'', ''Not Before'', ''Request ID''}
            \<longrightarrow> field_map (parse_loop k (optional_lines f) st) key = field_map st key)"
  using assms
  by (simp add: optional_lines_def parse_loop_append parse_loop_optional_line py_find_labels
      split: option.splits)

lemma parse_loop_body:
  fixes ss :: "string list" and u v r n t :: string and i c :: int and f :: SIWAMessageFields
  defines "st0 \<equiv> \<lparr>field_map = Map.empty, statement_v = None, in_statement = False, stmt_lines = []\<rparr>"
  defines "st \<equiv> parse_loop 2 ([] # ss @ [] # field_lines u v i r c n t @ optional_lines f) st0"
  assumes ok: "list_all (\<lambda>l. l \<noteq> [] \<and> \<not> startswith l ''URI: '') ss"
  shows "statement_v st = (let s = py_strip (py_join newline ss) in if s = [] then None else Some s)"
    and "field_map st ''URI'' = Some u"
    and "field_map st ''Version'' = Some v"
    and "field_map st ''Agent ID'' = Some (py_str_int i)"
    and "field_map st ''Agent Registry'' = Some r"
    and "field_map st ''Chain ID'' = Some (py_str_int c)"
    and "field_map st ''Nonce'' = Some n"
    and "field_map st ''Issued At'' = Some t"
    and "field_map st ''Expiration Time'' = absent_if_empty (expiration_time f)"
    and "field_map st ''Not Before'' = absent_if_empty (not_before f)"
    and "field_map st ''Request ID'' = absent_if_empty (request_id f)"
proof -
  define st1 where "st1 = st0\<lparr>in_statement := True\<rparr>"
  define st2 where "st2 = st1\<lparr>stmt_lines := ss\<rparr>"
  define st3 where "st3 = st2\<lparr>in_statement := False,
      statement_v := (let s = py_strip (py_join newline ss) in if s = [] then None else Some s)\<rparr>"
  define st4 where "st4 = parse_loop (Suc (3 + length ss)) (field_lines u v i r c n t) st3"
  have a: "parse_line 2 [] st0 = st1"
    by (simp add: parse_line_def st1_def)
  have b: "parse_loop 3 ss st1 = st2"
    using ok parse_loop_statement[of st1 3 ss]
    by (simp add: st1_def st2_def st0_def list_all_iff)
  have c: "parse_line (3 + length ss) [] st2 = st3"
    by (simp add: parse_line_def st2_def st1_def st3_def startswith_def)
  have n3: "\<not> in_statement st3" by (simp add: st3_def)
  have d: "st4 = st3\<lparr>field_map := (field_map st3)(''URI'' \<mapsto> u, ''Version'' \<mapsto> v,
            ''Agent ID'' \<mapsto> py_str_int i, ''Agent Registry'' \<mapsto> r, ''Chain ID'' \<mapsto> py_str_int c,
            ''Nonce'' \<mapsto> n, ''Issued At'' \<mapsto> t)\<rparr>"
    unfolding st4_def using n3 by (rule parse_loop_field_lines)
  have n4: "\<not> in_statement st4" using n3 d by simp
  have e: "st = parse_loop (Suc (3 + length ss) + length (field_lines u v i r c n t)) (optional_lines f) st4"
    unfolding st_def st4_def
    using a b c
    by (simp add: parse_loop_append numeral_3_eq_3 numeral_2_eq_2)
  note o = parse_loop_optional_lines[OF n4, of "Suc (3 + length ss) + length (field_lines u v i r c n t)" f,
      folded e]
  have fm3: "field_map st3 = Map.empty"
    by (simp add: st3_def st2_def st1_def st0_def)
  show "statement_v st = (let s = py_strip (py_join newline ss) in if s = [] then None else Some s)"
    using o d by (simp add: st3_def)
  show "field_map st ''URI'' = Some u" using o d by simp
  show "field_map st ''Version'' = Some v" using o d by simp
  show "field_map st ''Agent ID'' = Some (py_str_int i)" using o d by simp
  show "field_map st ''Agent Registry'' = Some r" using o d by simp
  show "field_map st ''Chain ID'' = Some (py_str_int c)" using o d by simp
  show "field_map st ''Nonce'' = Some n" using o d by simp
  show "field_map st ''Issued At'' = Some t" using o d by simp
  show "field_map st ''Expiration Time'' = absent_if_empty (expiration_time f)"
    using o d fm3 by (simp split: option.splits)
  show "field_map st ''Not Before'' = absent_if_empty (not_before f)"
    using o d fm3 by (simp split: option.splits)
  show "field_map st ''Request ID'' = absent_if_empty (request_id f)"
    using o d fm3 by (simp split: option.splits)
qed

lemma statement_v_normalized:
  "(let s = py_strip (py_join newline (statement_lines v)) in if s = [] then None else Some s)
     = absent_if_empty (map_option py_strip v)"
  by (cases v)
     (auto simp: statement_lines_def absent_if_empty_def truthy_def py_join_split Let_def
        py_strip_def strip_with_def)

lemma statement_lines_concat:
  "concat (map (py_split newline) (case v of None \<Rightarrow> [] | Some s \<Rightarrow> if s \<noteq> [] then [s] else []))
     = statement_lines v"
  by (cases v) (auto simp: statement_lines_def absent_if_empty_def truthy_def)

lemma statement_lines_ok:
  "statement_ok v \<Longrightarrow> list_all (\<lambda>l. l \<noteq> [] \<and> \<not> startswith l ''URI: '') (statement_lines v)"
  by (cases v) (auto simp: statement_ok_def statement_lines_def absent_if_empty_def truthy_def)

lemma optional_lines_single:
  assumes "single_line_opt (expiration_time f)" "single_line_opt (not_before f)"
    "single_line_opt (request_id f)"
  shows "\<forall>l\<in>set (optional_lines f). newline \<notin> set l"
  using assms
  by (auto simp: optional_lines_def newline_def dest!: optional_line_single[rotated 2])

lemma parse_built_lines:
  assumes d: "d \<noteq> []" "single_line d"
    and a: "startswith a ''0x''" "length a = 42" "single_line a"
    and s: "single_line u" "single_line v" "single_line r" "single_line n" "single_line t"
    and st: "statement_ok sv"
    and opt: "single_line_opt (expiration_time f)" "single_line_opt (not_before f)"
       "single_line_opt (request_id f)"
  shows "parse_siwa_message (py_join newline
           ([d @ domain_suffix, a, []]
            @ (case sv of None \<Rightarrow> [] | Some s \<Rightarrow> if s \<noteq> [] then [s] else [])
            @ [] # field_lines u v i r c n t @ optional_lines f))
     = Inr \<lparr>domain = Some d, address = Some a,
            statement = absent_if_empty (map_option py_strip sv),
            uri = Some u, version = Some v, agent_id = Some i, agent_registry = Some r,
            chain_id = Some c, nonce = Some n, issued_at = Some t,
            expiration_time = absent_if_empty (expiration_time f),
            not_before = absent_if_empty (not_before f),
            request_id = absent_if_empty (request_id f)\<rparr>"
proof -
  define ss where "ss = statement_lines sv"
  define body where "body = [] # ss @ [] # field_lines u v i r c n t @ optional_lines f"
  define m where "m = py_join newline
     ([d @ domain_suffix, a, []]
      @ (case sv of None \<Rightarrow> [] | Some s \<Rightarrow> if s \<noteq> [] then [s] else [])
      @ [] # field_lines u v i r c n t @ optional_lines f)"
  have l0: "py_split newline (d @ domain_suffix) = [d @ domain_suffix]"
    using d(2) by (intro py_split_single) (simp add: single_line_def domain_suffix_def newline_def)
  have l1: "py_split newline a = [a]"
    using a(3) by (intro py_split_single) (simp add: single_line_def)
  have fl: "concat (map (py_split newline) (field_lines u v i r c n t)) = field_lines u v i r c n t"
    using s by (intro concat_split_single field_lines_single)
  have ol: "concat (map (py_split newline) (optional_lines f)) = optional_lines f"
    using opt by (intro concat_split_single optional_lines_single)
  have split: "py_split newline m = (d @ domain_suffix) # a # body"
    unfolding m_def
    by (subst py_split_join) (simp_all add: l0 l1 fl ol statement_lines_concat body_def ss_def)
  have ssok: "list_all (\<lambda>l. l \<noteq> [] \<and> \<not> startswith l ''URI: '') ss"
    unfolding ss_def using st by (rule statement_lines_ok)
  note pl = parse_loop_body[OF ssok, of u v i r c n t f, folded body_def]
  have a0: "a \<noteq> []" using a(2) by auto
  show ?thesis
    unfolding m_def[symmetric] parse_siwa_message_def split
    using a a0 d(1)
    by (simp add: match_domain_line_suffix pl py_int_str_int get_default_def
          Let_def ss_def statement_v_normalized[unfolded Let_def])
qed

subsection \<open>The concrete messages\<close>

lemma digit_char_values:
  "digit_char 0 = CHR ''0''" "digit_char 1 = CHR ''1''" "digit_char 2 = CHR ''2''"
  "digit_char 3 = CHR ''3''" "digit_char 4 = CHR ''4''" "digit_char 5 = CHR ''5''"
  "digit_char 6 = CHR ''6''" "digit_char 7 = CHR ''7''" "digit_char 8 = CHR ''8''"
  "digit_char 9 = CHR ''9''"
  by (simp_all add: digit_char_def char_of_def bit_0 bit_Suc)

lemma str_nat_42: "str_nat 42 = ''42''"
  by (simp add: str_nat.simps digit_char_values)

lemma str_nat_84532: "str_nat 84532 = ''84532''"
  by (simp add: str_nat.simps digit_char_values)

lemma demo_build: "build_siwa_message demo_fields = Inr demo_message"
  by (simp add: build_siwa_message_def demo_fields_def demo_message_def getitem_def
      get_default_def optional_line_def domain_suffix_def py_str_int_def str_nat_42 str_nat_84532)

lemma demo_message_lines:
  "demo_message = py_join newline
     ([''example.com'' @ domain_suffix, demo_address, []]
      @ (case statement demo_fields of None \<Rightarrow> [] | Some s \<Rightarrow> if s \<noteq> [] then [s] else [])
      @ [] # field_lines ''https://example.com/login'' ''1'' 42 ''eip155:84532:0x8004AA63'' 84532
               ''abc123'' ''2030-01-01T00:00:00Z''
      @ optional_lines demo_fields)"
  by (simp add: demo_message_def demo_fields_def demo_address_def domain_suffix_def
      field_lines_def optional_lines_def optional_line_def py_str_int_def str_nat_42
      str_nat_84532)

lemma demo_parse: "parse_siwa_message demo_message = Inr demo_fields"
  unfolding demo_message_lines
  by (subst parse_built_lines)
     (simp_all add: demo_fields_def demo_address_def single_line_def single_line_opt_def
        statement_ok_def startswith_def newline_def absent_if_empty_def truthy_def)

lemma offset_message_lines:
  "offset_message = py_join newline
     ([''example.com'' @ domain_suffix, demo_address, []]
      @ (case statement offset_fields of None \<Rightarrow> [] | Some s \<Rightarrow> if s \<noteq> [] then [s] else [])
      @ [] # field_lines ''https://example.com/login'' ''1'' 42 ''eip155:84532:0x8004AA63'' 84532
               ''abc123'' ''2030-01-01T00:00:00Z''
      @ optional_lines offset_fields)"
  by (simp add: offset_message_def offset_fields_def demo_fields_def demo_address_def
      domain_suffix_def field_lines_def optional_lines_def optional_line_def py_str_int_def
      str_nat_42 str_nat_84532)

lemma offset_parse: "parse_siwa_message offset_message = Inr offset_fields"
  unfolding offset_message_lines
  by (subst parse_built_lines)
     (simp_all add: offset_fields_def demo_fields_def demo_address_def single_line_def
        single_line_opt_def statement_ok_def startswith_def newline_def absent_if_empty_def
        truthy_def)

section \<open>The codec round trip (claim C1)\<close>

text \<open>
  Claim C1, amended: for every fields value with all required fields present, where the
  domain is not empty, the address has 42 characters and starts with \<open>0x\<close>, every value
  other than the statement is a single line, and no line of the statement is empty or starts
  with \<open>URI: \<close>, the message builds and parsing it gives every field back, with the
  statement stripped and an empty statement or an empty optional field absent.
\<close>

theorem codec_roundtrip:
  assumes "codec_fields_ok f"
  shows "\<exists>m. build_siwa_message f = Inr m \<and> parse_siwa_message m = Inr (normalized f)"
proof -
  from assms obtain d a u v i r c n t where
    f: "domain f = Some d" "address f = Some a" "uri f = Some u" "version f = Some v"
       "agent_id f = Some i" "agent_registry f = Some r" "chain_id f = Some c"
       "nonce f = Some n" "issued_at f = Some t"
    and ok: "d \<noteq> []" "single_line d" "startswith a ''0x''" "length a = 42" "single_line a"
       "single_line u" "single_line v" "single_line r" "single_line n" "single_line t"
       "statement_ok (statement f)"
       "single_line_opt (expiration_time f)" "single_line_opt (not_before f)"
       "single_line_opt (request_id f)"
    by (auto simp: codec_fields_ok_def required_line_def split: option.splits)
  define m where "m = py_join newline
     ([d @ domain_suffix, a, []]
      @ (case statement f of None \<Rightarrow> [] | Some s \<Rightarrow> if s \<noteq> [] then [s] else [])
      @ [] # field_lines u v i r c n t @ optional_lines f)"
  have build: "build_siwa_message f = Inr m"
    by (simp add: build_siwa_message_def f getitem_def get_default_def m_def field_lines_def
        optional_lines_def)
  have same: "\<lparr>domain = Some d, address = Some a,
            statement = absent_if_empty (map_option py_strip (statement f)),
            uri = Some u, version = Some v, agent_id = Some i, agent_registry = Some r,
            chain_id = Some c, nonce = Some n, issued_at = Some t,
            expiration_time = absent_if_empty (expiration_time f),
            not_before = absent_if_empty (not_before f),
            request_id = absent_if_empty (request_id f)\<rparr> = normalized f"
    using f by (cases f) (simp add: normalized_def)
  have "parse_siwa_message m = Inr (normalized f)"
    unfolding m_def using parse_built_lines[OF ok, of i c] same by simp
  with build show ?thesis by blast
qed

lemma statement_fields_ok: "codec_fields_ok statement_fields"
  by (simp add: codec_fields_ok_def statement_fields_def demo_fields_def single_line_def
      required_line_def single_line_opt_def statement_ok_def startswith_def newline_def)

lemma statement_build: "build_siwa_message statement_fields = Inr statement_message"
  by (simp add: build_siwa_message_def statement_fields_def demo_fields_def
      statement_message_def getitem_def get_default_def optional_line_def domain_suffix_def
      py_str_int_def str_nat_42 str_nat_84532)

lemma statement_normalized:
  "normalized statement_fields
     = demo_fields\<lparr>statement := Some (''Sign in to'' @ [newline] @ ''your account'')\<rparr>"
  by (simp add: normalized_def statement_fields_def demo_fields_def absent_if_empty_def
      truthy_def py_strip_def strip_with_def py_isspace_def newline_def)

text \<open>
  The theorem at a statement of two lines with a blank on each side, and an empty request
  id: the statement comes back stripped and the request id absent.
\<close>

theorem codec_roundtrip_witness:
  "codec_fields_ok statement_fields
   \<and> build_siwa_message statement_fields = Inr statement_message
   \<and> parse_siwa_message statement_message
       = Inr (demo_fields\<lparr>statement := Some (''Sign in to'' @ [newline] @ ''your account'')\<rparr>)"
  using codec_roundtrip[OF statement_fields_ok] statement_fields_ok
  by (simp add: statement_build statement_normalized)

lemma uri_statement_split:
  "py_split newline uri_statement_message =
     [''example.com wants you to sign in with your Agent account:'',
      ''0x1234567890123456789012345678901234567890'',
      [],
      ''URI: x'',
      [],
      ''URI: https://example.com/login'',
      ''Version: 1'',
      ''Agent ID: 42'',
      ''Agent Registry: eip155:84532:0x8004AA63'',
      ''Chain ID: 84532'',
      ''Nonce: abc123'',
      ''Issued At: 2030-01-01T00:00:00Z'',
      ''Expiration Time: 2030-01-01T12:00:00Z'']"
  unfolding uri_statement_message_def
  by (subst py_split_join, simp, subst concat_split_single) (simp_all add: newline_def)

lemma uri_statement_build:
  "build_siwa_message uri_statement_fields = Inr uri_statement_message"
  by (simp add: build_siwa_message_def uri_statement_fields_def demo_fields_def
      uri_statement_message_def getitem_def get_default_def optional_line_def domain_suffix_def
      py_str_int_def str_nat_42 str_nat_84532)

lemma int_literal_42: "int_literal ''42'' = Some 42"
  using int_literal_str_int[of 42] by (simp add: py_str_int_def str_nat_42)

lemma int_literal_84532: "int_literal ''84532'' = Some 84532"
  using int_literal_str_int[of 84532] by (simp add: py_str_int_def str_nat_84532)

lemma uri_statement_parse:
  "parse_siwa_message uri_statement_message = Inr demo_fields"
  unfolding parse_siwa_message_def uri_statement_split
  by (simp add: match_domain_line_def domain_suffix_def suffix_def startswith_def parse_line_def
      set_field_def py_partition_def py_in_def py_strip_def strip_with_def get_default_def
      py_int_def int_literal_42 int_literal_84532 demo_fields_def Let_def)

text \<open>
  Claim C1 as stated fails on the statement \<open>URI: x\<close>, which is not empty and has no
  empty line: the parser takes the line for the field and gives no statement back.
\<close>

theorem codec_roundtrip_counterexample:
  "statement uri_statement_fields = Some ''URI: x''
   \<and> py_strip ''URI: x'' = ''URI: x''
   \<and> build_siwa_message uri_statement_fields = Inr uri_statement_message
   \<and> parse_siwa_message uri_statement_message = Inr (uri_statement_fields\<lparr>statement := None\<rparr>)"
  by (simp add: uri_statement_build uri_statement_parse)
     (simp add: uri_statement_fields_def demo_fields_def py_strip_def strip_with_def
        py_isspace_def)

section \<open>Parsing failures (claim C5)\<close>

text \<open>
  With two lines or more, a second line that is empty, does not start with \<open>0x\<close> or has
  a length other than 42 makes the parser raise \<open>ValueError\<close>, whatever the first line is.
\<close>

lemma parse_malformed_address:
  assumes "py_split newline message = line0 # a # body"
    and "a = [] \<or> \<not> startswith a ''0x'' \<or> length a \<noteq> 42"
  shows "\<exists>m. parse_siwa_message message = Inl (ValueError m)"
  using assms by (auto simp: parse_siwa_message_def split: option.splits)

text \<open>
  Claim C5: a message whose second line is missing, does not start with \<open>0x\<close> or is not 42
  characters long fails with a \<open>ValueError\<close>, in particular a message that is only a valid
  first line. The code does otherwise on every message of that last kind: \<open>lines[1]\<close> is
  read before the test \<open>not address\<close>, and what is raised is \<open>IndexError\<close>.
\<close>

theorem parse_only_first_line:
  assumes "d \<noteq> []" "single_line d"
  shows "parse_siwa_message (d @ domain_suffix) = Inl (IndexError ''list index out of range'')"
proof -
  have "py_split newline (d @ domain_suffix) = [d @ domain_suffix]"
    using assms(2)
    by (intro py_split_single) (simp add: single_line_def domain_suffix_def newline_def)
  then show ?thesis
    using assms(1) by (simp add: parse_siwa_message_def match_domain_line_suffix)
qed

text \<open>The theorem at the first line of the tests.\<close>

theorem parse_only_first_line_witness:
  "parse_siwa_message ''example.com wants you to sign in with your Agent account:''
     = Inl (IndexError ''list index out of range'')"
  using parse_only_first_line[of "''example.com''"]
  by (simp add: single_line_def newline_def domain_suffix_def)

section \<open>The response for an unregistered agent (claim C8)\<close>

text \<open>
  When the chain id of the action can be computed, the response is the one the claim
  describes.
\<close>

lemma response_not_registered:
  assumes "valid result \<noteq> Some True" "code result = Some NOT_REGISTERED"
    and "action_chain_id_of result
           (py_split (CHR '':'') (get_default (r_agent_registry result) [])) = Inr cid"
  shows "\<exists>resp act. build_siwa_response result = Inr resp \<and> status resp = Not_registered
     \<and> resp_action resp = Some act \<and> action_type act = ''register''
     \<and> steps act = register_steps \<and> length (steps act) = 6
     \<and> registry_address act =
         (let parts = py_split (CHR '':'') (get_default (r_agent_registry result) [])
          in if length parts = 3 then Some (parts ! 2) else None)
     \<and> action_chain_id act = cid"
  using assms
  by (auto simp: build_siwa_response_def base_response_def Let_def register_steps_def)

text \<open>
  Claim C8: every result with \<open>valid = false\<close> and \<open>code = NOT_REGISTERED\<close> is turned into
  a \<open>not_registered\<close> response with a \<open>register\<close> action, whose chain id is the chain id
  of the result or, failing that, the second part of the registry. The code does
  otherwise when the chain id of the result is missing or 0 and that second part is not a
  number: \<open>int\<close> raises \<open>ValueError\<close> and no response is returned.
\<close>

theorem response_unregistered_raises:
  assumes "valid result \<noteq> Some True" "code result = Some NOT_REGISTERED"
    and "r_chain_id result = None \<or> r_chain_id result = Some 0"
    and "py_split (CHR '':'') (get_default (r_agent_registry result) []) = p0 # p1 # ps"
    and "int_literal p1 = None"
  shows "build_siwa_response result
     = Inl (ValueError (''invalid literal for int() with base 10: '' @ [CHR 0x27] @ p1 @ [CHR 0x27]))"
  using assms
  by (auto simp: build_siwa_response_def action_chain_id_of_def py_int_def)

text \<open>The theorem at a result with chain id 0 and the registry \<open>eip155:abc:0x8004AA63\<close>.\<close>

theorem response_unregistered_raises_witness:
  "build_siwa_response unregistered_result
     = Inl (ValueError
         (''invalid literal for int() with base 10: '' @ [CHR 0x27] @ ''abc'' @ [CHR 0x27]))"
proof -
  have s: "py_split (CHR '':'') (get_default (r_agent_registry unregistered_result) [])
             = ''eip155'' # ''abc'' # [''0x8004AA63'']"
    by (simp add: unregistered_result_def get_default_def)
  have i: "int_literal ''abc'' = None"
    by (simp add: int_literal_def strip_with_def int_space_def int_unsigned_def is_digit_def)
  show ?thesis
    using response_unregistered_raises[OF _ _ _ s i]
    by (simp add: unregistered_result_def)
qed

section \<open>Signing (claims C6 and C10)\<close>

lemma demo_build_address:
  "build_siwa_message (demo_fields\<lparr>address := Some demo_address\<rparr>) = Inr demo_message"
  using demo_build by (simp add: demo_fields_def demo_address_def)

lemma addresses_differ: "py_lower demo_address \<noteq> py_lower other_address"
  by (simp add: demo_address_def other_address_def py_lower_def py_lower_char_def)

text \<open>
  Claim C6, amended: once the signer has given its address, a claimed address that is
  present, not empty and differs from it when both are lowered makes the function raise the
  address-mismatch \<open>ValueError\<close>, in the world the address lookup left, so that no signature
  was asked for. When the claimed address is absent, empty or equal up to case, and the
  message can be built and the signer signs it, the function returns the message built
  from the fields with the address of the signer, the signature, and the address of the
  signer.
\<close>

theorem sign_address_authority:
  assumes "get_address signer w = (Inr a, w1)"
  shows "(\<forall>claimed. address flds = Some claimed \<and> claimed \<noteq> [] \<and> py_lower a \<noteq> py_lower claimed
            \<longrightarrow> sign_siwa_message flds signer w =
                  (Inl (ValueError (''Address mismatch: signer has '' @ a
                          @ '', message claims '' @ claimed)), w1))
       \<and> (address flds = None \<or> address flds = Some []
            \<or> (\<exists>claimed. address flds = Some claimed \<and> py_lower a = py_lower claimed)
            \<longrightarrow> (\<forall>m sig w2. build_siwa_message (flds\<lparr>address := Some a\<rparr>) = Inr m
                   \<and> sign_message signer m w1 = (Inr sig, w2)
                   \<longrightarrow> sign_siwa_message flds signer w =
                         (Inr \<lparr>s_message = m, s_signature = sig, s_address = a\<rparr>, w2)))"
  using assms by (auto simp: sign_siwa_message_def truthy_def)

text \<open>
  The theorem at the signer of \<open>demo_address\<close>: a different claimed address raises and
  leaves the count of signatures at 0; no claimed address gives the signed message.
\<close>

theorem sign_address_authority_witness:
  "sign_siwa_message (demo_fields\<lparr>address := Some other_address\<rparr>) demo_signer 0
     = (Inl (ValueError (''Address mismatch: signer has '' @ demo_address
               @ '', message claims '' @ other_address)), 0)
   \<and> sign_siwa_message (demo_fields\<lparr>address := None\<rparr>) demo_signer 0
     = (Inr \<lparr>s_message = demo_message, s_signature = ''0xsigned'', s_address = demo_address\<rparr>, 1)"
proof -
  have g: "get_address demo_signer (0::nat) = (Inr demo_address, 0)"
    by (simp add: demo_signer_def)
  have s: "sign_message demo_signer demo_message (0::nat) = (Inr ''0xsigned'', 1)"
    by (simp add: demo_signer_def)
  have o: "other_address \<noteq> []" by (simp add: other_address_def)
  have b: "build_siwa_message (demo_fields\<lparr>address := None, address := Some demo_address\<rparr>)
             = Inr demo_message"
    using demo_build_address by simp
  show ?thesis
    using sign_address_authority[OF g, of "demo_fields\<lparr>address := Some other_address\<rparr>"]
      sign_address_authority[OF g, of "demo_fields\<lparr>address := None\<rparr>"]
      addresses_differ o s b
    by simp
qed

text \<open>
  Claim C6 as stated fails on a claimed address that is present and empty: it differs from
  the address of the signer, and signing succeeds.
\<close>

theorem sign_address_authority_counterexample:
  "address (demo_fields\<lparr>address := Some []\<rparr>) = Some []
   \<and> py_lower demo_address \<noteq> py_lower []
   \<and> sign_siwa_message (demo_fields\<lparr>address := Some []\<rparr>) demo_signer 0
     = (Inr \<lparr>s_message = demo_message, s_signature = ''0xsigned'', s_address = demo_address\<rparr>, 1)"
  using demo_build_address
  by (simp add: sign_siwa_message_def truthy_def demo_signer_def)
     (simp add: demo_address_def py_lower_def)

text \<open>
  Claim C10: when the claimed address is present and empty, the mismatch test is skipped:
  the function does what it does when the address is absent, and when the signer gives its
  address, the message can be built and the signer signs it, the call succeeds and the
  address returned is the address of the signer.
\<close>

theorem sign_empty_address:
  assumes "address flds = Some []"
  shows "sign_siwa_message flds signer w = sign_siwa_message (flds\<lparr>address := None\<rparr>) signer w
     \<and> (\<forall>a w1 m sig w2. get_address signer w = (Inr a, w1)
           \<and> build_siwa_message (flds\<lparr>address := Some a\<rparr>) = Inr m
           \<and> sign_message signer m w1 = (Inr sig, w2)
           \<longrightarrow> sign_siwa_message flds signer w =
                 (Inr \<lparr>s_message = m, s_signature = sig, s_address = a\<rparr>, w2))"
  using assms by (auto simp: sign_siwa_message_def truthy_def split: prod.splits sum.splits)

text \<open>The theorem at the demo fields with an empty address, after five earlier signatures.\<close>

theorem sign_empty_address_witness:
  "address (demo_fields\<lparr>address := Some []\<rparr>) = Some []
   \<and> sign_siwa_message (demo_fields\<lparr>address := Some []\<rparr>) demo_signer 5
     = (Inr \<lparr>s_message = demo_message, s_signature = ''0xsigned'', s_address = demo_address\<rparr>, 6)"
proof -
  have e: "address (demo_fields\<lparr>address := Some []\<rparr>) = Some []" by simp
  have g: "get_address demo_signer (5::nat) = (Inr demo_address, 5)"
    by (simp add: demo_signer_def)
  have s: "sign_message demo_signer demo_message (5::nat) = (Inr ''0xsigned'', 6)"
    by (simp add: demo_signer_def)
  have b: "build_siwa_message ((demo_fields\<lparr>address := Some []\<rparr>)\<lparr>address := Some demo_address\<rparr>)
             = Inr demo_message"
    using demo_build_address by simp
  from sign_empty_address[OF e, of demo_signer 5]
  have "sign_siwa_message (demo_fields\<lparr>address := Some []\<rparr>) demo_signer 5
          = (Inr \<lparr>s_message = demo_message, s_signature = ''0xsigned'', s_address = demo_address\<rparr>, 6)"
    using g s b by blast
  with e show ?thesis by blast
qed

section \<open>Verification (claims C2, C3, C4, C7 and C9)\<close>

text \<open>A parsed message has every required field.\<close>

lemma parse_fields_present:
  assumes "parse_siwa_message message = Inr flds"
  shows "\<exists>d a u v i r c n t. domain flds = Some d \<and> address flds = Some a \<and> uri flds = Some u
      \<and> version flds = Some v \<and> agent_id flds = Some i \<and> agent_registry flds = Some r
      \<and> chain_id flds = Some c \<and> nonce flds = Some n \<and> issued_at flds = Some t"
  using assms
  by (auto simp: parse_siwa_message_def Let_def split: list.splits option.splits if_splits sum.splits)

text \<open>What the stand-ins and the parsed demo messages give.\<close>

lemma demo_recover [simp]:
  "encode_defunct demo_lib m = Inr m"
  "recover_message demo_lib h ''0xgood'' = Inr demo_address"
  "recover_message demo_lib h ''0xbad'' = Inl (OtherError ''bad signature'')"
  "to_checksum_address demo_lib a = Inr a"
  "utcnow demo_lib = 28800000000"
  "fromisoformat demo_lib = demo_fromisoformat"
  by (simp_all add: demo_lib_def)

lemma demo_fields_values [simp]:
  "domain demo_fields = Some ''example.com''"
  "address demo_fields = Some demo_address"
  "agent_id demo_fields = Some 42"
  "agent_registry demo_fields = Some ''eip155:84532:0x8004AA63''"
  "chain_id demo_fields = Some 84532"
  "nonce demo_fields = Some ''abc123''"
  "expiration_time demo_fields = Some ''2030-01-01T12:00:00Z''"
  "not_before demo_fields = None"
  by (simp_all add: demo_fields_def demo_address_def)

lemma offset_fields_values [simp]:
  "domain offset_fields = Some ''example.com''"
  "address offset_fields = Some demo_address"
  "agent_id offset_fields = Some 42"
  "agent_registry offset_fields = Some ''eip155:84532:0x8004AA63''"
  "chain_id offset_fields = Some 84532"
  "nonce offset_fields = Some ''abc123''"
  "expiration_time offset_fields = Some ''2030-01-01T12:00:00+05:00''"
  "not_before offset_fields = None"
  by (simp_all add: offset_fields_def demo_fields_def demo_address_def)

lemma demo_fail:
  "fail demo_fields c e =
     \<lparr>valid = Some False, r_address = Some demo_address, r_agent_id = Some 42,
      r_agent_registry = Some ''eip155:84532:0x8004AA63'', r_chain_id = Some 84532,
      verified = Some Onchain, signer_type = None, code = Some c, error = Some e\<rparr>"
  by (simp add: fail_def get_default_def)

lemma demo_expired: "expired demo_lib demo_fields = Inr False"
  by (simp add: expired_def demo_fromisoformat_def replace_tzinfo_None_def)

lemma demo_not_yet_valid: "not_yet_valid demo_lib demo_fields = Inr False"
  by (simp add: not_yet_valid_def)

lemma demo_registry:
  "py_split (CHR '':'') ''eip155:84532:0x8004AA63'' = [''eip155'', ''84532'', ''0x8004AA63'']"
  by simp

lemma demo_domain_mismatch:
  "verify_siwa demo_lib demo_message ''0xgood'' ''other.example'' demo_nonce_validator demo_w3 None (0, 0)
     = (Inr \<lparr>valid = Some False, r_address = Some demo_address, r_agent_id = Some 42,
             r_agent_registry = Some ''eip155:84532:0x8004AA63'', r_chain_id = Some 84532,
             verified = Some Onchain, signer_type = None, code = Some DOMAIN_MISMATCH,
             error = Some ''Domain mismatch: expected other.example, got example.com''\<rparr>, (0, 0))"
  by (simp add: verify_siwa_def verify_siwa_try_def demo_parse getitem_def demo_fail)

lemma demo_nonce_rejected:
  "verify_siwa demo_lib demo_message ''0xgood'' ''example.com'' rejecting_nonce_validator demo_w3 None (0, 0)
     = (Inr \<lparr>valid = Some False, r_address = Some demo_address, r_agent_id = Some 42,
             r_agent_registry = Some ''eip155:84532:0x8004AA63'', r_chain_id = Some 84532,
             verified = Some Onchain, signer_type = None, code = Some INVALID_NONCE,
             error = Some ''Invalid or consumed nonce''\<rparr>, (1, 0))"
  by (simp add: verify_siwa_def verify_siwa_try_def demo_parse getitem_def demo_fail
      rejecting_nonce_validator_def)

lemma offset_verify:
  "verify_siwa demo_lib offset_message ''0xgood'' ''example.com'' demo_nonce_validator demo_w3 None (0, 0)
     = (Inr \<lparr>valid = Some True, r_address = Some demo_address, r_agent_id = Some 42,
             r_agent_registry = Some ''eip155:84532:0x8004AA63'', r_chain_id = Some 84532,
             verified = Some Onchain, signer_type = Some Eoa, code = None, error = None\<rparr>, (1, 2))"
  by (simp add: verify_siwa_def verify_siwa_try_def verify_time_window_def verify_onchain_def
      offset_parse getitem_def demo_nonce_validator_def demo_w3_def truthy_def Let_def
      numeral_2_eq_2 expired_def not_yet_valid_def demo_fromisoformat_def replace_tzinfo_None_def)

text \<open>The stages in turn.\<close>

lemma verify_stages_1_to_5:
  assumes "parse_siwa_message m = Inr flds"
    and "encode_defunct lib m = Inr h"
    and "recover_message lib h sig = Inr recovered"
    and "address flds = Some a" and "py_lower recovered = py_lower a"
    and "domain flds = Some expected_domain"
    and "nonce flds = Some n" and "nv n w = (Inr True, w1)"
  shows "verify_siwa_try lib m sig expected_domain nv w3 ra w
           = verify_time_window lib w3 ra flds recovered w1"
  using assms by (simp add: verify_siwa_try_def getitem_def)

lemma verify_onchain_verified:
  assumes "verify_onchain lib w3 ra flds recovered w = (Inr r, w')"
  shows "verified r = Some Onchain \<and> code r \<noteq> Some VERIFICATION_FAILED"
  using assms
  by (auto simp: verify_onchain_def Let_def fail_def split: sum.splits prod.splits if_splits)

lemma verify_time_window_verified:
  assumes "verify_time_window lib w3 ra flds recovered w = (Inr r, w')"
  shows "verified r = Some Onchain \<and> code r \<noteq> Some VERIFICATION_FAILED"
  using assms verify_onchain_verified[of lib w3 ra flds recovered w r w']
  by (auto simp: verify_time_window_def fail_def split: sum.splits bool.splits)

lemma verify_try_verified:
  assumes "verify_siwa_try lib m sig d nv w3 ra w = (Inr r, w')"
  shows "verified r = Some Onchain \<and> code r \<noteq> Some VERIFICATION_FAILED"
  using assms verify_time_window_verified[of lib w3 ra _ _ _ r w']
  by (auto simp: verify_siwa_try_def fail_def split: sum.splits prod.splits if_splits)

lemma verify_onchain_not_expired:
  assumes "verify_onchain lib w3 ra flds recovered w = (Inr r, w')"
  shows "code r \<noteq> Some MESSAGE_EXPIRED"
  using assms
  by (auto simp: verify_onchain_def Let_def fail_def split: sum.splits prod.splits if_splits)

lemma verify_onchain_not_early:
  assumes "verify_onchain lib w3 ra flds recovered w = (Inr r, w')"
  shows "code r \<noteq> Some MESSAGE_NOT_YET_VALID"
  using assms
  by (auto simp: verify_onchain_def Let_def fail_def split: sum.splits prod.splits if_splits)

subsection \<open>Totality (claim C3)\<close>

text \<open>
  Claim C3: for every input \<open>verify_siwa\<close> returns a result and does not raise; an exception
  that leaves the body of the \<open>try\<close> block at any stage, and so one raised by the parser,
  gives the result with \<open>valid = false\<close>, \<open>code = VERIFICATION_FAILED\<close> and
  \<open>verified = offline\<close>.
\<close>

theorem verify_siwa_total:
  "(\<exists>r w'. verify_siwa lib m sig d nv w3 ra w = (Inr r, w'))
   \<and> (\<forall>e w'. verify_siwa_try lib m sig d nv w3 ra w = (Inl e, w')
         \<longrightarrow> verify_siwa lib m sig d nv w3 ra w =
               (Inr \<lparr>valid = Some False, r_address = Some [], r_agent_id = Some 0,
                     r_agent_registry = Some [], r_chain_id = Some 0, verified = Some Offline,
                     signer_type = None, code = Some VERIFICATION_FAILED,
                     error = Some (py_exn_str e)\<rparr>, w'))
   \<and> (\<forall>e. parse_siwa_message m = Inl e
         \<longrightarrow> verify_siwa lib m sig d nv w3 ra w =
               (Inr \<lparr>valid = Some False, r_address = Some [], r_agent_id = Some 0,
                     r_agent_registry = Some [], r_chain_id = Some 0, verified = Some Offline,
                     signer_type = None, code = Some VERIFICATION_FAILED,
                     error = Some (py_exn_str e)\<rparr>, w))"
  by (auto simp: verify_siwa_def verify_siwa_try_def split: prod.splits sum.splits)

text \<open>The theorem at a text that is no SIWA message.\<close>

theorem verify_siwa_total_witness:
  "verify_siwa demo_lib ''not a SIWA message'' ''0xgood'' ''example.com'' demo_nonce_validator
      demo_w3 None (0, 0)
     = (Inr \<lparr>valid = Some False, r_address = Some [], r_agent_id = Some 0,
             r_agent_registry = Some [], r_chain_id = Some 0, verified = Some Offline,
             signer_type = None, code = Some VERIFICATION_FAILED,
             error = Some ''Invalid SIWA message: missing domain line''\<rparr>, (0, 0))"
proof -
  have p: "parse_siwa_message ''not a SIWA message''
             = Inl (ValueError ''Invalid SIWA message: missing domain line'')"
    by (simp add: parse_siwa_message_def newline_def match_domain_line_def domain_suffix_def
        suffix_def)
  show ?thesis
    using verify_siwa_total[of demo_lib "''not a SIWA message''" "''0xgood''" "''example.com''"
        demo_nonce_validator demo_w3 None "(0, 0)"] p
    by simp
qed

subsection \<open>The field verified (claim C2)\<close>

text \<open>
  Claim C2, amended: in every result of \<open>verify_siwa\<close> the field \<open>verified\<close> is
  \<open>offline\<close> exactly when the code is \<open>VERIFICATION_FAILED\<close>, the result of the handler;
  the result of success and the result of every failing stage, before a call to the chain
  or after it, carry \<open>onchain\<close>.
\<close>

theorem verified_field:
  assumes "verify_siwa lib m sig d nv w3 ra w = (Inr r, w')"
  shows "verified r = Some (if code r = Some VERIFICATION_FAILED then Offline else Onchain)"
  using assms verify_try_verified[of lib m sig d nv w3 ra w]
  by (auto simp: verify_siwa_def split: sum.splits prod.splits)

text \<open>
  The theorem at a message whose nonce the validator rejects: one call of the validator,
  none to the chain, and \<open>verified = onchain\<close>.
\<close>

theorem verified_field_witness:
  "verified \<lparr>valid = Some False, r_address = Some demo_address, r_agent_id = Some 42,
             r_agent_registry = Some ''eip155:84532:0x8004AA63'', r_chain_id = Some 84532,
             verified = Some Onchain, signer_type = None, code = Some INVALID_NONCE,
             error = Some ''Invalid or consumed nonce''\<rparr> = Some Onchain
   \<and> verify_siwa demo_lib demo_message ''0xgood'' ''example.com'' rejecting_nonce_validator
         demo_w3 None (0, 0)
     = (Inr \<lparr>valid = Some False, r_address = Some demo_address, r_agent_id = Some 42,
             r_agent_registry = Some ''eip155:84532:0x8004AA63'', r_chain_id = Some 84532,
             verified = Some Onchain, signer_type = None, code = Some INVALID_NONCE,
             error = Some ''Invalid or consumed nonce''\<rparr>, (1, 0))"
  using verified_field[OF demo_nonce_rejected] demo_nonce_rejected by simp

text \<open>
  Claim C2 as stated fails on a message signed for another domain: the failure comes
  before any call to the chain (the world still counts none), and the result carries
  \<open>verified = onchain\<close>.
\<close>

theorem verified_field_counterexample:
  "verify_siwa demo_lib demo_message ''0xgood'' ''other.example'' demo_nonce_validator demo_w3 None (0, 0)
     = (Inr \<lparr>valid = Some False, r_address = Some demo_address, r_agent_id = Some 42,
             r_agent_registry = Some ''eip155:84532:0x8004AA63'', r_chain_id = Some 84532,
             verified = Some Onchain, signer_type = None, code = Some DOMAIN_MISMATCH,
             error = Some ''Domain mismatch: expected other.example, got example.com''\<rparr>, (0, 0))"
  by (rule demo_domain_mismatch)

subsection \<open>Domain before nonce (claim C4)\<close>

text \<open>
  Claim C4, amended: for every message that parses with a domain other than the expected
  one, the nonce validator is not called (the world comes back as it was, and the outcome
  is the same whatever the validator, the node and the registry override are), the code of
  the result is not \<open>INVALID_NONCE\<close>, and it is \<open>DOMAIN_MISMATCH\<close> when the signature
  recovers to the address of the message.
\<close>

theorem domain_before_nonce:
  assumes "parse_siwa_message m = Inr flds" "domain flds \<noteq> Some expected_domain"
  shows "snd (verify_siwa lib m sig expected_domain nv w3 ra w) = w
     \<and> verify_siwa lib m sig expected_domain nv w3 ra w
         = verify_siwa lib m sig expected_domain nv' w3' ra' w
     \<and> (\<exists>r. fst (verify_siwa lib m sig expected_domain nv w3 ra w) = Inr r
            \<and> code r \<noteq> Some INVALID_NONCE
            \<and> ((\<exists>h recovered a. encode_defunct lib m = Inr h
                    \<and> recover_message lib h sig = Inr recovered
                    \<and> address flds = Some a \<and> py_lower recovered = py_lower a)
                 \<longrightarrow> code r = Some DOMAIN_MISMATCH))"
proof -
  from parse_fields_present[OF assms(1)] obtain d a where
    f: "domain flds = Some d" "address flds = Some a" by blast
  with assms(2) have ne: "d \<noteq> expected_domain" by simp
  show ?thesis
    using assms(1) f ne
    by (auto simp: verify_siwa_def verify_siwa_try_def getitem_def fail_def split: sum.splits)
qed

text \<open>
  The theorem at a well-signed message for another domain, with a validator that would
  reject the nonce: the validator is not called and the code is \<open>DOMAIN_MISMATCH\<close>.
\<close>

theorem domain_before_nonce_witness:
  "verify_siwa demo_lib demo_message ''0xgood'' ''other.example'' rejecting_nonce_validator demo_w3 None (0, 0)
     = (Inr \<lparr>valid = Some False, r_address = Some demo_address, r_agent_id = Some 42,
             r_agent_registry = Some ''eip155:84532:0x8004AA63'', r_chain_id = Some 84532,
             verified = Some Onchain, signer_type = None, code = Some DOMAIN_MISMATCH,
             error = Some ''Domain mismatch: expected other.example, got example.com''\<rparr>, (0, 0))"
proof -
  have d: "domain demo_fields \<noteq> Some ''other.example''" by simp
  from domain_before_nonce[OF demo_parse d, of demo_lib "''0xgood''" rejecting_nonce_validator
      demo_w3 None "(0, 0)" demo_nonce_validator demo_w3 None]
  have "verify_siwa demo_lib demo_message ''0xgood'' ''other.example'' rejecting_nonce_validator demo_w3 None (0, 0)
     = verify_siwa demo_lib demo_message ''0xgood'' ''other.example'' demo_nonce_validator demo_w3 None (0, 0)"
    by blast
  then show ?thesis by (simp add: demo_domain_mismatch)
qed

text \<open>
  Claim C4 as stated fails on a message for another domain whose signature does not
  recover: the signature is checked first, and the code is \<open>INVALID_SIGNATURE\<close>.
\<close>

theorem domain_before_nonce_counterexample:
  "parse_siwa_message demo_message = Inr demo_fields
   \<and> domain demo_fields \<noteq> Some ''other.example''
   \<and> verify_siwa demo_lib demo_message ''0xbad'' ''other.example'' demo_nonce_validator demo_w3 None (0, 0)
     = (Inr \<lparr>valid = Some False, r_address = Some demo_address, r_agent_id = Some 42,
             r_agent_registry = Some ''eip155:84532:0x8004AA63'', r_chain_id = Some 84532,
             verified = Some Onchain, signer_type = None, code = Some INVALID_SIGNATURE,
             error = Some ''Invalid signature''\<rparr>, (0, 0))"
  by (simp add: verify_siwa_def verify_siwa_try_def demo_parse demo_fail)

subsection \<open>The time window (claim C7)\<close>

text \<open>
  Claim C7: a message that reaches the time window fails with \<open>MESSAGE_EXPIRED\<close> exactly
  when the current time is strictly greater than its expiration time, with the time
  stamps brought to UTC. The code compares the clock, which reads UTC, with the reading of
  the clock fields of the parsed expiration time, whose offset \<open>replace(tzinfo=None)\<close>
  drops: the comparison is strict as claimed, but an expiration time written with an offset
  other than zero is compared as if it were UTC.
\<close>

theorem expiry_compares_readings:
  assumes "parse_siwa_message m = Inr flds"
    and "encode_defunct lib m = Inr h"
    and "recover_message lib h sig = Inr recovered"
    and "address flds = Some a" and "py_lower recovered = py_lower a"
    and "domain flds = Some expected_domain"
    and "nonce flds = Some n" and "nv n w = (Inr True, w1)"
    and "expiration_time flds = Some s" and "s \<noteq> []"
    and "fromisoformat lib (replace_Z s) = Inr exp"
  shows "(wall_clock exp < utcnow lib
            \<longrightarrow> verify_siwa lib m sig expected_domain nv w3 ra w
                  = (Inr (fail flds MESSAGE_EXPIRED ''Message expired''), w1))
       \<and> (utcnow lib \<le> wall_clock exp
            \<longrightarrow> (\<forall>r w'. verify_siwa lib m sig expected_domain nv w3 ra w = (Inr r, w')
                   \<longrightarrow> code r \<noteq> Some MESSAGE_EXPIRED))"
proof -
  have t: "verify_siwa_try lib m sig expected_domain nv w3 ra w
          = verify_time_window lib w3 ra flds recovered w1"
    using assms(1-8) by (rule verify_stages_1_to_5)
  have e: "expired lib flds = Inr (wall_clock exp < utcnow lib)"
    using assms(9-11) by (simp add: expired_def replace_tzinfo_None_def)
  show ?thesis
    using verify_onchain_not_expired[of lib w3 ra flds recovered w1]
    by (auto simp: verify_siwa_def t e verify_time_window_def fail_def
        split: sum.splits prod.splits bool.splits)
qed

text \<open>
  The theorem at an expiration time of 12:00:00+05:00, which is 07:00:00 UTC, with the clock
  at 08:00:00 UTC: the message is past its expiration time and the verification succeeds.
\<close>

theorem expiry_compares_readings_witness:
  "utc_instant \<lparr>wall_clock = 43200000000, tzinfo = Some 18000000000\<rparr> < utcnow demo_lib
   \<and> fromisoformat demo_lib (replace_Z ''2030-01-01T12:00:00+05:00'')
       = Inr \<lparr>wall_clock = 43200000000, tzinfo = Some 18000000000\<rparr>
   \<and> verify_siwa demo_lib offset_message ''0xgood'' ''example.com'' demo_nonce_validator demo_w3 None (0, 0)
     = (Inr \<lparr>valid = Some True, r_address = Some demo_address, r_agent_id = Some 42,
             r_agent_registry = Some ''eip155:84532:0x8004AA63'', r_chain_id = Some 84532,
             verified = Some Onchain, signer_type = Some Eoa, code = None, error = None\<rparr>, (1, 2))"
proof -
  have nv: "demo_nonce_validator ''abc123'' (0, 0) = (Inr True, (1, 0))"
    by (simp add: demo_nonce_validator_def)
  have iso: "fromisoformat demo_lib (replace_Z ''2030-01-01T12:00:00+05:00'')
       = Inr \<lparr>wall_clock = 43200000000, tzinfo = Some 18000000000\<rparr>"
    by (simp add: demo_fromisoformat_def)
  have "code \<lparr>valid = Some True, r_address = Some demo_address, r_agent_id = Some 42,
             r_agent_registry = Some ''eip155:84532:0x8004AA63'', r_chain_id = Some 84532,
             verified = Some Onchain, signer_type = Some Eoa, code = None, error = None\<rparr>
          \<noteq> Some MESSAGE_EXPIRED"
    using expiry_compares_readings[where lib = demo_lib and m = offset_message
        and flds = offset_fields and h = offset_message and sig = "''0xgood''"
        and recovered = demo_address and a = demo_address
        and expected_domain = "''example.com''" and n = "''abc123''"
        and nv = demo_nonce_validator and w = "(0, 0)" and ?w1.0 = "(1, 0)"
        and s = "''2030-01-01T12:00:00+05:00''"
        and exp = "\<lparr>wall_clock = 43200000000, tzinfo = Some 18000000000\<rparr>"
        and ?w3.0 = demo_w3 and ra = None]
      offset_parse nv iso offset_verify
    by simp
  then show ?thesis
    using iso offset_verify by (simp add: utc_instant_def get_default_def)
qed

text \<open>
  The test of \<open>not_before\<close> is strict in the same way, and reads the parsed value in the
  same way.
\<close>

lemma not_before_compares_readings:
  assumes "parse_siwa_message m = Inr flds"
    and "encode_defunct lib m = Inr h"
    and "recover_message lib h sig = Inr recovered"
    and "address flds = Some a" and "py_lower recovered = py_lower a"
    and "domain flds = Some expected_domain"
    and "nonce flds = Some n" and "nv n w = (Inr True, w1)"
    and "expired lib flds = Inr False"
    and "not_before flds = Some s" and "s \<noteq> []"
    and "fromisoformat lib (replace_Z s) = Inr nbf"
  shows "(utcnow lib < wall_clock nbf
            \<longrightarrow> verify_siwa lib m sig expected_domain nv w3 ra w
                  = (Inr (fail flds MESSAGE_NOT_YET_VALID ''Message not yet valid (not_before)''), w1))
       \<and> (wall_clock nbf \<le> utcnow lib
            \<longrightarrow> (\<forall>r w'. verify_siwa lib m sig expected_domain nv w3 ra w = (Inr r, w')
                   \<longrightarrow> code r \<noteq> Some MESSAGE_NOT_YET_VALID))"
proof -
  have t: "verify_siwa_try lib m sig expected_domain nv w3 ra w
          = verify_time_window lib w3 ra flds recovered w1"
    using assms(1-8) by (rule verify_stages_1_to_5)
  have e: "not_yet_valid lib flds = Inr (utcnow lib < wall_clock nbf)"
    using assms(10-12) by (simp add: not_yet_valid_def replace_tzinfo_None_def)
  show ?thesis
    using verify_onchain_not_early[of lib w3 ra flds recovered w1] assms(9)
    by (auto simp: verify_siwa_def t e verify_time_window_def fail_def
        split: sum.splits prod.splits bool.splits)
qed

subsection \<open>The signer type (claim C9)\<close>

text \<open>
  Claim C9, amended: for every verification that passes all stages up to the ownership on
  the chain and whose lookup of the deployed code returns, the result has \<open>valid = true\<close>,
  whatever the lookup returned; the signer type is \<open>sca\<close> when the code is not empty and
  \<open>eoa\<close> when it is.
\<close>

theorem signer_type_informational:
  assumes "parse_siwa_message m = Inr flds"
    and "encode_defunct lib m = Inr h"
    and "recover_message lib h sig = Inr recovered"
    and "address flds = Some a" and "py_lower recovered = py_lower a"
    and "domain flds = Some expected_domain"
    and "nonce flds = Some n" and "nv n w = (Inr True, w1)"
    and "expired lib flds = Inr False" and "not_yet_valid lib flds = Inr False"
    and "agent_registry flds = Some reg"
    and "py_split (CHR '':'') reg = [''eip155'', chain, contract]"
    and "to_checksum_address lib (if truthy ra then get_default ra [] else contract) = Inr cs"
    and "agent_id flds = Some i" and "owner_of w3 cs i w1 = (Inr owner, w2)"
    and "py_lower owner = py_lower recovered"
    and "to_checksum_address lib a = Inr ca"
    and "chain_id flds = Some c"
    and "get_code w3 ca w2 = (Inr code', w3')"
  shows "verify_siwa lib m sig expected_domain nv w3 ra w
     = (Inr \<lparr>valid = Some True, r_address = Some recovered, r_agent_id = Some i,
             r_agent_registry = Some reg, r_chain_id = Some c, verified = Some Onchain,
             signer_type = Some (if code' \<noteq> [] then Sca else Eoa), code = None,
             error = None\<rparr>, w3')"
proof -
  have "verify_siwa_try lib m sig expected_domain nv w3 ra w
          = verify_time_window lib w3 ra flds recovered w1"
    using assms(1-8) by (rule verify_stages_1_to_5)
  also have "\<dots> = verify_onchain lib w3 ra flds recovered w1"
    using assms(9,10) by (simp add: verify_time_window_def)
  also have "\<dots> = (Inr \<lparr>valid = Some True, r_address = Some recovered, r_agent_id = Some i,
             r_agent_registry = Some reg, r_chain_id = Some c, verified = Some Onchain,
             signer_type = Some (if code' \<noteq> [] then Sca else Eoa), code = None,
             error = None\<rparr>, w3')"
    using assms(4,11-19)
    by (cases "truthy ra") (simp_all add: verify_onchain_def getitem_def Let_def)
  finally show ?thesis by (simp add: verify_siwa_def)
qed

text \<open>The theorem at the demo message, for an owner without deployed code.\<close>

theorem signer_type_informational_witness:
  "verify_siwa demo_lib demo_message ''0xgood'' ''example.com'' demo_nonce_validator demo_w3 None (0, 0)
     = (Inr \<lparr>valid = Some True, r_address = Some demo_address, r_agent_id = Some 42,
             r_agent_registry = Some ''eip155:84532:0x8004AA63'', r_chain_id = Some 84532,
             verified = Some Onchain, signer_type = Some Eoa, code = None, error = None\<rparr>, (1, 2))"
proof -
  have nv: "demo_nonce_validator ''abc123'' (0, 0) = (Inr True, (1, 0))"
    by (simp add: demo_nonce_validator_def)
  have own: "owner_of demo_w3 ''0x8004AA63'' 42 (1, 0) = (Inr demo_address, (1, 1))"
    by (simp add: demo_w3_def)
  have gc: "get_code demo_w3 demo_address (1, 1) = (Inr [], (1, 2))"
    by (simp add: demo_w3_def numeral_2_eq_2)
  have cs: "to_checksum_address demo_lib (if truthy None then get_default None [] else ''0x8004AA63'')
              = Inr ''0x8004AA63''"
    by (simp add: truthy_def)
  show ?thesis
    using signer_type_informational[where lib = demo_lib and m = demo_message
        and flds = demo_fields and h = demo_message and sig = "''0xgood''"
        and recovered = demo_address and a = demo_address
        and expected_domain = "''example.com''" and n = "''abc123''"
        and nv = demo_nonce_validator and w = "(0, 0)" and ?w1.0 = "(1, 0)"
        and reg = "''eip155:84532:0x8004AA63''" and chain = "''84532''"
        and contract = "''0x8004AA63''" and ra = None and cs = "''0x8004AA63''" and i = 42
        and ?w3.0 = demo_w3 and owner = demo_address and ?w2.0 = "(1, 1)"
        and ca = demo_address and c = 84532 and code' = "[]" and w3' = "(1, 2)"]
      demo_parse nv own gc cs demo_expired demo_not_yet_valid demo_registry
    by simp
qed

text \<open>
  Claim C9 as stated fails when the lookup raises: nothing catches the exception before
  the handler of the whole function, and the result has \<open>valid = false\<close>.
\<close>

theorem signer_type_informational_counterexample:
  "verify_siwa demo_lib demo_message ''0xgood'' ''example.com'' demo_nonce_validator failing_w3 None (0, 0)
     = (Inr \<lparr>valid = Some False, r_address = Some [], r_agent_id = Some 0,
             r_agent_registry = Some [], r_chain_id = Some 0, verified = Some Offline,
             signer_type = None, code = Some VERIFICATION_FAILED,
             error = Some ''connection refused''\<rparr>, (1, 2))"
  using demo_expired demo_not_yet_valid
  by (simp add: verify_siwa_def verify_siwa_try_def verify_time_window_def verify_onchain_def
      demo_parse getitem_def demo_nonce_validator_def failing_w3_def truthy_def Let_def
      numeral_2_eq_2)

end
